theory Spec2Isabelle
  imports Main
begin

section \<open>Python values\<close>

text \<open>
  A request body is what \<^verbatim>\<open>request.get_json(force=True)\<close> hands to the handler: a
  parsed JSON value. JSON numbers are modelled as Python's unbounded integers; a number
  with a fraction is outside the model. A dict is an association list read with
  \<^verbatim>\<open>.get\<close>, which yields \<^verbatim>\<open>None\<close> for a key that is not there.
\<close>

datatype json =
    JNull
  | JBool bool
  | JInt int
  | JStr string
  | JList "json list"
  | JObj "(string \<times> json) list"

text \<open>Python's truth value, as \<^verbatim>\<open>not x\<close> tests it.\<close>

fun truthy :: "json \<Rightarrow> bool" where
  "truthy JNull = False"
| "truthy (JBool b) = b"
| "truthy (JInt i) = (i \<noteq> 0)"
| "truthy (JStr s) = (s \<noteq> [])"
| "truthy (JList xs) = (xs \<noteq> [])"
| "truthy (JObj kv) = (kv \<noteq> [])"

fun type_name :: "json \<Rightarrow> string" where
  "type_name JNull = ''NoneType''"
| "type_name (JBool b) = ''bool''"
| "type_name (JInt i) = ''int''"
| "type_name (JStr s) = ''str''"
| "type_name (JList xs) = ''list''"
| "type_name (JObj kv) = ''dict''"

text \<open>
  Exceptions carry the text that \<^verbatim>\<open>str(exc)\<close> gives. \<open>IntegrityError\<close> is
  \<^verbatim>\<open>sqlite3.IntegrityError\<close>, the only class the handlers tell apart.
\<close>

datatype exc =
    IntegrityError string
  | TypeError string
  | AttributeError string
  | ProgrammingError string
  | OverflowError string
  | AssertionError
  | OtherError string

fun str_exc :: "exc \<Rightarrow> string" where
  "str_exc (IntegrityError m) = m"
| "str_exc (TypeError m) = m"
| "str_exc (AttributeError m) = m"
| "str_exc (ProgrammingError m) = m"
| "str_exc (OverflowError m) = m"
| "str_exc AssertionError = []"
| "str_exc (OtherError m) = m"

definition dict_get :: "(string \<times> json) list \<Rightarrow> string \<Rightarrow> json" where
  "dict_get kv k = (case map_of kv k of None \<Rightarrow> JNull | Some v \<Rightarrow> v)"

definition no_get :: "json \<Rightarrow> exc" where
  "no_get v = AttributeError ([CHR 0x27] @ type_name v @ ''' object has no attribute '' @
                              [CHR 0x27] @ ''get'' @ [CHR 0x27])"

text \<open>Unary minus: defined on \<^verbatim>\<open>int\<close> and on \<^verbatim>\<open>bool\<close>, its subclass.\<close>

fun py_neg :: "json \<Rightarrow> exc + int" where
  "py_neg (JInt i) = Inr (- i)"
| "py_neg (JBool b) = Inr (- (if b then 1 else 0))"
| "py_neg v = Inl (TypeError (''bad operand type for unary -: '' @
                              [CHR 0x27] @ type_name v @ [CHR 0x27]))"

text \<open>
  \<^verbatim>\<open>s.startswith(p)\<close>, \<^verbatim>\<open>s.split(" ")\<close>, \<^verbatim>\<open>s.lower()\<close> and \<^verbatim>\<open>p in s\<close>. A string
  is a list of bytes, and \<open>lower\<close> maps the ASCII capitals only.
\<close>

definition startswith :: "string \<Rightarrow> string \<Rightarrow> bool" where
  "startswith s p = (take (length p) s = p)"

fun split_sp :: "string \<Rightarrow> string list" where
  "split_sp [] = [[]]"
| "split_sp (c # cs) =
     (if c = CHR '' '' then [] # split_sp cs
      else (case split_sp cs of [] \<Rightarrow> [[c]] | w # ws \<Rightarrow> (c # w) # ws))"

definition lower_char :: "char \<Rightarrow> char" where
  "lower_char c =
     (let n = (of_char c :: nat) in if 65 \<le> n \<and> n \<le> 90 then char_of (n + 32) else c)"

definition lower :: "string \<Rightarrow> string" where
  "lower s = map lower_char s"

fun contains :: "string \<Rightarrow> string \<Rightarrow> bool" where
  "contains p [] = (p = [])"
| "contains p (c # cs) = (startswith (c # cs) p \<or> contains p cs)"

section \<open>Values bound to SQL parameters\<close>

text \<open>
  The \<^verbatim>\<open>sqlite3\<close> module binds \<^verbatim>\<open>None\<close>, integers (a \<^verbatim>\<open>bool\<close> is one) and
  strings; an integer outside 64 bits and a list or dict raise. The text of the second
  error is abbreviated: it varies between Python versions. Columns hold the values as
  bound; conversions by column affinity depend on the table declarations, which are not
  among the sources.
\<close>

datatype sqlval = SNull | SInt int | SText string

fun bind :: "json \<Rightarrow> exc + sqlval" where
  "bind JNull = Inr SNull"
| "bind (JBool b) = Inr (SInt (if b then 1 else 0))"
| "bind (JInt i) =
     (if - (2 ^ 63) \<le> i \<and> i < 2 ^ 63 then Inr (SInt i)
      else Inl (OverflowError ''Python int too large to convert to SQLite INTEGER''))"
| "bind (JStr s) = Inr (SText s)"
| "bind v = Inl (ProgrammingError ''Error binding parameter: type is not supported'')"

text \<open>
  SQLite's text of an integer, in decimal. A comparison of a text column with a bound
  integer converts the integer to this text first (the column's affinity is applied to
  the bound value).
\<close>

fun dec_nat :: "nat \<Rightarrow> string" where
  "dec_nat n = (if n < 10 then [char_of (48 + n)] else dec_nat (n div 10) @ [char_of (48 + n mod 10)])"

declare dec_nat.simps [simp del]

definition dec_int :: "int \<Rightarrow> string" where
  "dec_int i = (if i < 0 then CHR ''-'' # dec_nat (nat (- i)) else dec_nat (nat i))"

fun as_text :: "sqlval \<Rightarrow> sqlval" where
  "as_text (SInt i) = SText (dec_int i)"
| "as_text v = v"

section \<open>Tables\<close>

text \<open>
  Modelled from the spec: \<^verbatim>\<open>schema.sql\<close> is not among the sources, so the columns are
  those of the spec's data model that the handlers read or write. The columns
  \<^verbatim>\<open>time\<close> and \<^verbatim>\<open>total_cents\<close> of a sale are filled by the schema and left out.
  The note of a log written by \<open>create_sale\<close> is the f-string
  \<^verbatim>\<open>f"Automatic logging from sale #{sale_id}: {note}"\<close>, kept as its two arguments.
\<close>

record user_row =
  u_id :: int
  u_username :: string
  u_password_hash :: string
  u_role :: string

record customer_row =
  c_id :: int
  c_name :: string

record product_row =
  p_id :: int
  p_sku :: string
  p_name :: string
  p_price_cents :: int

datatype log_note = Plain sqlval | Automatic int json

record log_row =
  l_id :: int
  l_type :: string
  l_product_id :: sqlval
  l_delta :: int
  l_note :: log_note

record sale_row =
  s_id :: int
  s_customer_id :: sqlval
  s_user_id :: int

record detail_row =
  d_id :: int
  d_subtotal_cents :: sqlval
  d_sale_id :: int
  d_log_id :: "int option"
  d_note :: sqlval

record database =
  users :: "user_row list"
  customers :: "customer_row list"
  products :: "product_row list"
  inventory_logs :: "log_row list"
  sales :: "sale_row list"
  sales_details :: "detail_row list"

section \<open>Identities, requests and the state of the server\<close>

record identity =
  ident_id :: int
  ident_username :: string
  ident_role :: string

record request =
  authorization :: "string option"
  body :: json

text \<open>
  \<open>session\<close> is the caller's Flask session, empty or filled by \<open>login\<close> with its three
  keys at once; \<open>active_tokens\<close> is the module-level dict of \<^verbatim>\<open>user_auth.py\<close>.
\<close>

record world =
  session :: "identity option"
  active_tokens :: "string \<rightharpoonup> identity"
  db :: database

text \<open>What a handler returns: a JSON shape and a status code.\<close>

record detail_view =
  v_subtotal_cents :: sqlval
  v_log_id :: "int option"
  v_note :: sqlval
  v_product_id :: sqlval
  v_quantity :: "int option"
  v_product_name :: "string option"
  v_unit_price_cents :: "int option"
  v_sku :: "string option"

datatype retval =
    Msg string nat
  | MsgId string int nat
  | User identity
  | LoggedIn string identity string
  | SaleView int sqlval int "detail_view list"

type_synonym outcome = "(exc + retval) \<times> world"

type_synonym handler = "request \<Rightarrow> world \<Rightarrow> outcome"

section \<open>user\_auth.py\<close>

text \<open>
  The token of an \<^verbatim>\<open>Authorization\<close> header: present when the header is non-empty and
  starts with \<^verbatim>\<open>"Bearer "\<close>, and then the second piece of \<^verbatim>\<open>split(" ")\<close>.
\<close>

definition bearer_token :: "request \<Rightarrow> string option" where
  "bearer_token req =
     (case authorization req of
        None \<Rightarrow> None
      | Some auth_header \<Rightarrow>
          if auth_header \<noteq> [] \<and> startswith auth_header ''Bearer ''
          then (case split_sp auth_header of a # token # rest \<Rightarrow> Some token | _ \<Rightarrow> None)
          else None)"

text \<open>
  The caller's identity, as \<^verbatim>\<open>get_current_user\<close> and the wrapper of \<^verbatim>\<open>privileged\<close>
  both find it: the session when it has a \<^verbatim>\<open>user_id\<close>, else the entry of the
  bearer token in \<^verbatim>\<open>active_tokens\<close>, else nothing.
\<close>

definition resolve :: "request \<Rightarrow> world \<Rightarrow> identity option" where
  "resolve req w =
     (case session w of
        Some s \<Rightarrow> Some s
      | None \<Rightarrow> (case bearer_token req of
                   None \<Rightarrow> None
                 | Some token \<Rightarrow> active_tokens w token))"

definition get_current_user :: handler where
  "get_current_user req w =
     (case resolve req w of
        Some u \<Rightarrow> (Inr (User u), w)
      | None \<Rightarrow> (Inr (Msg ''You have not been authenticated.'' 401), w))"

definition privileged :: "string \<Rightarrow> handler \<Rightarrow> handler" where
  "privileged access func req w =
     (if access \<notin> {''r'', ''w'', ''a''} then (Inl AssertionError, w)
      else case resolve req w of
        None \<Rightarrow> (Inr (Msg ''You are not authorized.'' 401), w)
      | Some user_data \<Rightarrow>
          let role = ident_role user_data in
          if role = ''d'' then (Inr (Msg ''Your authorization was revoked.'' 403), w)
          else if role = ''r'' then
            (if access \<notin> {''r''} then (Inr (Msg ''You may not perform this operation.'' 403), w)
             else func req w)
          else if role = ''w'' then
            (if access \<notin> {''r'', ''w''} then (Inr (Msg ''You may not perform this operation.'' 403), w)
             else func req w)
          else if role = ''a'' then func req w
          else (Inl AssertionError, w))"

text \<open>
  \<^verbatim>\<open>SELECT ... FROM users WHERE username = ?\<close> and \<^verbatim>\<open>fetchone()\<close>. The column is text
  (the spec's data model), so a bound integer is compared as its decimal text; a bound
  \<^verbatim>\<open>None\<close> equals nothing.
\<close>

definition select_user :: "user_row list \<Rightarrow> json \<Rightarrow> exc + user_row option" where
  "select_user us username =
     (case bind username of
        Inl e \<Rightarrow> Inl e
      | Inr v \<Rightarrow> Inr (find (\<lambda>u. SText (u_username u) = as_text v) us))"

definition identity_of :: "user_row \<Rightarrow> identity" where
  "identity_of user =
     \<lparr>ident_id = u_id user, ident_username = u_username user, ident_role = u_role user\<rparr>"

text \<open>
  \<open>check_password_hash\<close> stands for \<^verbatim>\<open>bcrypt.check_password_hash\<close> and \<open>token\<close> for the
  value \<^verbatim>\<open>secrets.token_urlsafe(32)\<close> returns in this call.
\<close>

definition login :: "(string \<Rightarrow> json \<Rightarrow> exc + bool) \<Rightarrow> string \<Rightarrow> handler" where
  "login check_password_hash token req w =
     (let data = body req in
      if \<not> truthy data then (Inr (Msg ''A JSON body is required!'' 400), w)
      else case data of
        JObj kv \<Rightarrow>
          let username = dict_get kv ''username'' in
          if \<not> truthy username then (Inr (Msg ''A username is required!'' 400), w)
          else
            let password = dict_get kv ''password'' in
            if \<not> truthy password then (Inr (Msg ''A password is required!'' 400), w)
            else (case select_user (users (db w)) username of
                Inl e \<Rightarrow> (Inl e, w)
              | Inr None \<Rightarrow> (Inr (Msg ''Invalid credentials!'' 401), w)
              | Inr (Some user) \<Rightarrow>
                  (case check_password_hash (u_password_hash user) password of
                     Inl e \<Rightarrow> (Inl e, w)
                   | Inr ok \<Rightarrow>
                       if \<not> ok then (Inr (Msg ''Invalid credentials!'' 401), w)
                       else (Inr (LoggedIn ''Logged in.'' (identity_of user) token),
                             w\<lparr>session := Some (identity_of user),
                               active_tokens := (active_tokens w)(token \<mapsto> identity_of user)\<rparr>)))
      | _ \<Rightarrow> (Inl (no_get data), w))"

definition logout :: handler where
  "logout req w = (Inr (Msg ''Logged out.'' 200), w\<lparr>session := None\<rparr>)"

section \<open>The database engine\<close>

text \<open>
  The statements the sale handlers execute, with their bound values. The constraints of
  \<^verbatim>\<open>schema.sql\<close> (foreign keys, checks) are a parameter: a \<open>schema\<close> looks at the
  current tables and at a statement and either lets it run or raises. A rejected
  statement changes nothing. Triggers and cascading actions are not modelled.
\<close>

datatype stmt =
    InsertSale sqlval int
  | InsertLog sqlval int log_note
  | InsertDetail sqlval int "int option" sqlval
  | DeleteLogs "int list"
  | DeleteDetails int
  | DeleteSaleRow int

type_synonym schema = "database \<Rightarrow> stmt \<Rightarrow> exc option"

text \<open>\<^verbatim>\<open>cursor.lastrowid\<close> of an insert: SQLite takes the largest rowid in use plus one.\<close>

definition next_rowid :: "int list \<Rightarrow> int" where
  "next_rowid ids = (case ids of [] \<Rightarrow> 1 | i # rest \<Rightarrow> fold max rest i + 1)"

definition insert_sale :: "schema \<Rightarrow> json \<Rightarrow> int \<Rightarrow> database \<Rightarrow> exc + int \<times> database" where
  "insert_sale sch customer_id user_id d =
     (case bind customer_id of
        Inl e \<Rightarrow> Inl e
      | Inr c \<Rightarrow>
          (case bind (JInt user_id) of
             Inl e \<Rightarrow> Inl e
           | Inr b \<Rightarrow>
               (case sch d (InsertSale c user_id) of
                  Some e \<Rightarrow> Inl e
                | None \<Rightarrow>
                    let i = next_rowid (map s_id (sales d))
                    in Inr (i, d\<lparr>sales := sales d @
                             [\<lparr>s_id = i, s_customer_id = c, s_user_id = user_id\<rparr>]\<rparr>))))"

text \<open>
  The tuple of parameters is built before \<^verbatim>\<open>execute\<close> binds it, so \<^verbatim>\<open>-quantity\<close>
  is evaluated first.
\<close>

definition insert_log ::
  "schema \<Rightarrow> json \<Rightarrow> json \<Rightarrow> int \<Rightarrow> json \<Rightarrow> database \<Rightarrow> exc + int \<times> database" where
  "insert_log sch product_id quantity sale_id note d =
     (case py_neg quantity of
        Inl e \<Rightarrow> Inl e
      | Inr delta \<Rightarrow>
          (case bind product_id of
             Inl e \<Rightarrow> Inl e
           | Inr p \<Rightarrow>
               (case bind (JInt delta) of
                  Inl e \<Rightarrow> Inl e
                | Inr b \<Rightarrow>
                    (case sch d (InsertLog p delta (Automatic sale_id note)) of
                       Some e \<Rightarrow> Inl e
                     | None \<Rightarrow>
                         let i = next_rowid (map l_id (inventory_logs d))
                         in Inr (i, d\<lparr>inventory_logs := inventory_logs d @
                                  [\<lparr>l_id = i, l_type = ''s'', l_product_id = p, l_delta = delta,
                                    l_note = Automatic sale_id note\<rparr>]\<rparr>)))))"

definition insert_detail ::
  "schema \<Rightarrow> json \<Rightarrow> int \<Rightarrow> int option \<Rightarrow> json \<Rightarrow> database \<Rightarrow> exc + database" where
  "insert_detail sch subtotal sale_id log_id note d =
     (case bind subtotal of
        Inl e \<Rightarrow> Inl e
      | Inr s \<Rightarrow>
          (case bind note of
             Inl e \<Rightarrow> Inl e
           | Inr n \<Rightarrow>
               (case sch d (InsertDetail s sale_id log_id n) of
                  Some e \<Rightarrow> Inl e
                | None \<Rightarrow>
                    let i = next_rowid (map d_id (sales_details d))
                    in Inr (d\<lparr>sales_details := sales_details d @
                             [\<lparr>d_id = i, d_subtotal_cents = s, d_sale_id = sale_id,
                               d_log_id = log_id, d_note = n\<rparr>]\<rparr>))))"

definition delete_logs :: "schema \<Rightarrow> int list \<Rightarrow> database \<Rightarrow> exc + database" where
  "delete_logs sch log_ids d =
     (case sch d (DeleteLogs log_ids) of
        Some e \<Rightarrow> Inl e
      | None \<Rightarrow> Inr (d\<lparr>inventory_logs := filter (\<lambda>l. l_id l \<notin> set log_ids) (inventory_logs d)\<rparr>))"

definition delete_details :: "schema \<Rightarrow> int \<Rightarrow> database \<Rightarrow> exc + database" where
  "delete_details sch sale_id d =
     (case sch d (DeleteDetails sale_id) of
        Some e \<Rightarrow> Inl e
      | None \<Rightarrow> Inr (d\<lparr>sales_details := filter (\<lambda>r. d_sale_id r \<noteq> sale_id) (sales_details d)\<rparr>))"

text \<open>The last delete also yields \<^verbatim>\<open>result.rowcount\<close>.\<close>

definition delete_sale_row :: "schema \<Rightarrow> int \<Rightarrow> database \<Rightarrow> exc + nat \<times> database" where
  "delete_sale_row sch sale_id d =
     (case sch d (DeleteSaleRow sale_id) of
        Some e \<Rightarrow> Inl e
      | None \<Rightarrow> Inr (length (filter (\<lambda>s. s_id s = sale_id) (sales d)),
                     d\<lparr>sales := filter (\<lambda>s. s_id s \<noteq> sale_id) (sales d)\<rparr>))"

text \<open>
  \<^verbatim>\<open>with get_database() as db:\<close> is the context manager of an \<^verbatim>\<open>sqlite3\<close> connection:
  when the block is left without an exception, by falling through or by \<^verbatim>\<open>return\<close>,
  the open transaction is committed; when an exception leaves the block, it is rolled
  back and the exception goes on to the caller.
\<close>

definition with_database ::
  "database \<Rightarrow> (database \<Rightarrow> (exc + 'a) \<times> database) \<Rightarrow> (exc + 'a) \<times> database" where
  "with_database d block =
     (case block d of
        (Inl e, d') \<Rightarrow> (Inl e, d)
      | (Inr r, d') \<Rightarrow> (Inr r, d'))"

section \<open>sales.py\<close>

text \<open>How a piece of a function body ends: by raising, by \<^verbatim>\<open>return\<close>, or by going on.\<close>

datatype 'a flow = Raise exc | Return retval | Next 'a

subsection \<open>get\_sale\<close>

definition left_join :: "'a list \<Rightarrow> ('a \<Rightarrow> 'b list) \<Rightarrow> ('a \<times> 'b option) list" where
  "left_join xs matching =
     concat (map (\<lambda>x. case matching x of [] \<Rightarrow> [(x, None)] | ys \<Rightarrow> map (\<lambda>y. (x, Some y)) ys) xs)"

definition detail_view_of :: "(detail_row \<times> log_row option) \<times> product_row option \<Rightarrow> detail_view" where
  "detail_view_of j =
     (case j of ((sd, il), p) \<Rightarrow>
        \<lparr>v_subtotal_cents = d_subtotal_cents sd,
         v_log_id = d_log_id sd,
         v_note = d_note sd,
         v_product_id = (case il of None \<Rightarrow> SNull | Some l \<Rightarrow> l_product_id l),
         v_quantity = map_option (\<lambda>l. - l_delta l) il,
         v_product_name = map_option p_name p,
         v_unit_price_cents = map_option p_price_cents p,
         v_sku = map_option p_sku p\<rparr>)"

definition select_details :: "database \<Rightarrow> int \<Rightarrow> detail_view list" where
  "select_details d sale_id =
     (let sd = sort_key d_id (filter (\<lambda>r. d_sale_id r = sale_id) (sales_details d));
          sd_il = left_join sd (\<lambda>r. filter (\<lambda>l. d_log_id r = Some (l_id l)) (inventory_logs d));
          sd_il_p = left_join sd_il
            (\<lambda>j. case snd j of
                    None \<Rightarrow> []
                  | Some l \<Rightarrow> filter (\<lambda>p. l_product_id l = SInt (p_id p)) (products d))
      in map detail_view_of sd_il_p)"

definition get_sale :: "int \<Rightarrow> handler" where
  "get_sale sale_id req w =
     (case find (\<lambda>s. s_id s = sale_id) (sales (db w)) of
        None \<Rightarrow> (Inr (Msg ''Sale is not found!'' 404), w)
      | Some head \<Rightarrow>
          (Inr (SaleView (s_id head) (s_customer_id head) (s_user_id head)
                  (select_details (db w) sale_id)), w))"

subsection \<open>create\_sale\<close>

text \<open>One pass of the loop over \<^verbatim>\<open>details\<close>.\<close>

definition sale_item :: "schema \<Rightarrow> int \<Rightarrow> json \<Rightarrow> database \<Rightarrow> unit flow \<times> database" where
  "sale_item sch sale_id item d =
     (case item of
        JObj kv \<Rightarrow>
          let product_id = dict_get kv ''product_id'';
              quantity = dict_get kv ''quantity'';
              subtotal = dict_get kv ''subtotal_cents'';
              note = dict_get kv ''note''
          in
          if \<not> truthy subtotal then (Return (Msg ''Each detail requires a subtotal!'' 400), d)
          else if truthy product_id then
            (if \<not> truthy quantity then
               (Return (Msg ''Each detail that contains inventory change must have a quantity!'' 400), d)
             else (case insert_log sch product_id quantity sale_id note d of
                 Inl e \<Rightarrow> (Raise e, d)
               | Inr (log_id, d1) \<Rightarrow>
                   (case insert_detail sch subtotal sale_id (Some log_id) note d1 of
                      Inl e \<Rightarrow> (Raise e, d1)
                    | Inr d2 \<Rightarrow> (Next (), d2))))
          else (case insert_detail sch subtotal sale_id None note d of
              Inl e \<Rightarrow> (Raise e, d)
            | Inr d2 \<Rightarrow> (Next (), d2))
      | _ \<Rightarrow> (Raise (no_get item), d))"

fun sale_items :: "schema \<Rightarrow> int \<Rightarrow> json list \<Rightarrow> database \<Rightarrow> unit flow \<times> database" where
  "sale_items sch sale_id [] d = (Next (), d)"
| "sale_items sch sale_id (item # rest) d =
     (case sale_item sch sale_id item d of
        (Next u, d') \<Rightarrow> sale_items sch sale_id rest d'
      | (Raise e, d') \<Rightarrow> (Raise e, d')
      | (Return r, d') \<Rightarrow> (Return r, d'))"

text \<open>The body of the \<^verbatim>\<open>try\<close> block.\<close>

definition sale_try :: "schema \<Rightarrow> json \<Rightarrow> int \<Rightarrow> json list \<Rightarrow> database \<Rightarrow> int flow \<times> database" where
  "sale_try sch customer_id user_id details d =
     (case insert_sale sch customer_id user_id d of
        Inl e \<Rightarrow> (Raise e, d)
      | Inr (sale_id, d1) \<Rightarrow>
          (case sale_items sch sale_id details d1 of
             (Next u, d2) \<Rightarrow> (Next sale_id, d2)
           | (Raise e, d2) \<Rightarrow> (Raise e, d2)
           | (Return r, d2) \<Rightarrow> (Return r, d2)))"

text \<open>The two \<^verbatim>\<open>except\<close> clauses.\<close>

definition sale_except :: "exc \<Rightarrow> retval" where
  "sale_except e =
     (case e of
        IntegrityError m \<Rightarrow>
          let msg = lower m in
          if contains ''customer_id'' msg then Msg ''Customer does not exist!'' 400
          else if contains ''product_id'' msg then Msg ''Product does not exist!'' 400
          else Msg ''Invalid input or constraint violation!'' 400
      | _ \<Rightarrow> Msg (''Server error: '' @ str_exc e) 500)"

text \<open>
  The \<^verbatim>\<open>with\<close> block and the \<^verbatim>\<open>return\<close> after it. Both \<^verbatim>\<open>except\<close> clauses and
  the two validation checks of the loop return from inside the block.
\<close>

definition sale_block :: "schema \<Rightarrow> json \<Rightarrow> int \<Rightarrow> json list \<Rightarrow> database \<Rightarrow> (exc + retval) \<times> database" where
  "sale_block sch customer_id user_id details d =
     (case sale_try sch customer_id user_id details d of
        (Raise e, d') \<Rightarrow> (Inr (sale_except e), d')
      | (Return r, d') \<Rightarrow> (Inr r, d')
      | (Next sale_id, d') \<Rightarrow> (Inr (MsgId ''Sale has been created.'' sale_id 201), d'))"

text \<open>Lines 102 to 111: the acting user's id, from the session or else from the token.\<close>

definition acting_user_id :: "request \<Rightarrow> world \<Rightarrow> int option" where
  "acting_user_id req w =
     (case session w of
        Some s \<Rightarrow> Some (ident_id s)
      | None \<Rightarrow> (case bearer_token req of
                   None \<Rightarrow> None
                 | Some token \<Rightarrow> map_option ident_id (active_tokens w token)))"

definition create_sale :: "schema \<Rightarrow> handler" where
  "create_sale sch req w =
     (let data = body req in
      if \<not> truthy data then (Inr (Msg ''A JSON body is required!'' 400), w)
      else case data of
        JObj kv \<Rightarrow>
          let customer_id = dict_get kv ''customer_id'' in
          if \<not> truthy customer_id then (Inr (Msg ''A customer is required!'' 400), w)
          else (case dict_get kv ''details'' of
              JList details \<Rightarrow>
                if details = [] then (Inr (Msg ''A non-empty list of details is required!'' 400), w)
                else (case acting_user_id req w of
                    None \<Rightarrow> (Inr (Msg ''User authentication failed.'' 401), w)
                  | Some user_id \<Rightarrow>
                      if user_id = 0 then (Inr (Msg ''User authentication failed.'' 401), w)
                      else (case with_database (db w) (sale_block sch customer_id user_id details) of
                          (r, d') \<Rightarrow> (r, w\<lparr>db := d'\<rparr>)))
            | _ \<Rightarrow> (Inr (Msg ''A non-empty list of details is required!'' 400), w))
      | _ \<Rightarrow> (Inl (no_get data), w))"

subsection \<open>delete\_sale\<close>

definition delete_block :: "schema \<Rightarrow> int \<Rightarrow> database \<Rightarrow> (exc + retval) \<times> database" where
  "delete_block sch sale_id d =
     (let rows = filter (\<lambda>r. d_sale_id r = sale_id) (sales_details d);
          log_ids = List.map_filter d_log_id rows
      in case (if log_ids \<noteq> [] then delete_logs sch log_ids d else Inr d) of
        Inl e \<Rightarrow> (Inl e, d)
      | Inr d1 \<Rightarrow>
          (case delete_details sch sale_id d1 of
             Inl e \<Rightarrow> (Inl e, d1)
           | Inr d2 \<Rightarrow>
               (case delete_sale_row sch sale_id d2 of
                  Inl e \<Rightarrow> (Inl e, d2)
                | Inr (rowcount, d3) \<Rightarrow>
                    if rowcount = 0 then (Inr (Msg ''Sale is not found!'' 404), d3)
                    else (Inr (Msg ''Sale has been deleted.'' 200), d3))))"

definition delete_sale :: "schema \<Rightarrow> int \<Rightarrow> handler" where
  "delete_sale sch sale_id req w =
     (case with_database (db w) (delete_block sch sale_id) of
        (r, d') \<Rightarrow> (r, w\<lparr>db := d'\<rparr>))"

subsection \<open>The access level of each sales route\<close>

datatype sales_route = GetSales | GetSale | CreateSale | UpdateSale | DeleteSale

text \<open>The argument of \<^verbatim>\<open>@privileged\<close> above each handler of \<^verbatim>\<open>sales.py\<close>.\<close>

fun route_access :: "sales_route \<Rightarrow> string" where
  "route_access GetSales = ''r''"
| "route_access GetSale = ''r''"
| "route_access CreateSale = ''w''"
| "route_access UpdateSale = ''w''"
| "route_access DeleteSale = ''a''"

section \<open>The schema of the runs\<close>

text \<open>
  \<open>get_database\<close> opens the connection and sets the row factory, nothing else: foreign
  keys are never switched on, so SQLite does not check them. The runs below use a schema
  that lets every statement through.
\<close>

definition no_constraints :: schema where
  "no_constraints d s = None"

section \<open>A small shop to run the handlers on\<close>

definition alice :: identity where
  "alice = \<lparr>ident_id = 2, ident_username = ''alice'', ident_role = ''w''\<rparr>"

definition shop :: database where
  "shop =
     \<lparr>users = [\<lparr>u_id = 1, u_username = ''admin'', u_password_hash = ''h1'', u_role = ''a''\<rparr>,
               \<lparr>u_id = 2, u_username = ''alice'', u_password_hash = ''h2'', u_role = ''w''\<rparr>],
      customers = [\<lparr>c_id = 1, c_name = ''Ann''\<rparr>],
      products = [\<lparr>p_id = 5, p_sku = ''SKU5'', p_name = ''Tea'', p_price_cents = 250\<rparr>],
      inventory_logs = [],
      sales = [],
      sales_details = []\<rparr>"

definition w0 :: world where
  "w0 = \<lparr>session = None, active_tokens = [''tok'' \<mapsto> alice], db = shop\<rparr>"

definition as_alice :: "json \<Rightarrow> request" where
  "as_alice b = \<lparr>authorization = Some ''Bearer tok'', body = b\<rparr>"

definition anonymous :: "json \<Rightarrow> request" where
  "anonymous b = \<lparr>authorization = None, body = b\<rparr>"

text \<open>
  A password check that accepts the password \<^verbatim>\<open>"root"\<close> against the hash \<^verbatim>\<open>"h1"\<close>
  and the password \<^verbatim>\<open>"pw"\<close> against the hash \<^verbatim>\<open>"h2"\<close>.
\<close>

definition check_demo :: "string \<Rightarrow> json \<Rightarrow> exc + bool" where
  "check_demo h p = Inr (h = ''h1'' \<and> p = JStr ''root'' \<or> h = ''h2'' \<and> p = JStr ''pw'')"

definition credentials :: "string \<Rightarrow> string \<Rightarrow> json" where
  "credentials u p = JObj [(''username'', JStr u), (''password'', JStr p)]"

definition sale_request :: "int \<Rightarrow> json list \<Rightarrow> json" where
  "sale_request customer details = JObj [(''customer_id'', JInt customer), (''details'', JList details)]"

definition product_line :: "int \<Rightarrow> json \<Rightarrow> int \<Rightarrow> json" where
  "product_line product quantity subtotal =
     JObj [(''product_id'', JInt product), (''quantity'', quantity), (''subtotal_cents'', JInt subtotal)]"

definition plain_line :: "int \<Rightarrow> json" where
  "plain_line subtotal = JObj [(''subtotal_cents'', JInt subtotal)]"

text \<open>The shop after one sale of two lines, the first for two units of product 5.\<close>

definition sold :: database where
  "sold = shop\<lparr>
     inventory_logs := [\<lparr>l_id = 1, l_type = ''s'', l_product_id = SInt 5, l_delta = - 2,
                         l_note = Automatic 1 JNull\<rparr>],
     sales := [\<lparr>s_id = 1, s_customer_id = SInt 1, s_user_id = 2\<rparr>],
     sales_details := [\<lparr>d_id = 1, d_subtotal_cents = SInt 500, d_sale_id = 1,
                         d_log_id = Some 1, d_note = SNull\<rparr>,
                       \<lparr>d_id = 2, d_subtotal_cents = SInt 100, d_sale_id = 1,
                         d_log_id = None, d_note = SNull\<rparr>]\<rparr>"

section \<open>Reading a request line\<close>

text \<open>
  The field of a line as \<^verbatim>\<open>item.get\<close> reads it, and the test \<^verbatim>\<open>if product_id:\<close> that
  decides whether the line writes an inventory log.
\<close>

definition line_field :: "json \<Rightarrow> string \<Rightarrow> json" where
  "line_field item k = (case item of JObj kv \<Rightarrow> dict_get kv k | _ \<Rightarrow> JNull)"

definition affects_inventory :: "json \<Rightarrow> bool" where
  "affects_inventory item = truthy (line_field item ''product_id'')"

text \<open>
  The quantity a line asks for, as the integer it stands for (Python's \<^verbatim>\<open>True\<close> is 1);
  a line without a product asks for none, and get\_sale reports it with a null quantity.
\<close>

definition requested_quantity :: "json \<Rightarrow> int option" where
  "requested_quantity item =
     (if affects_inventory item
      then (case line_field item ''quantity'' of
              JInt q \<Rightarrow> Some q
            | JBool b \<Rightarrow> Some (if b then 1 else 0)
            | _ \<Rightarrow> None)
      else None)"

text \<open>
  No detail of sale \<open>sid\<close> points at a log that is not there. It holds of a sale id that
  no detail carries yet, and the loop of create\_sale keeps it.
\<close>

definition no_dangling :: "database \<Rightarrow> int \<Rightarrow> bool" where
  "no_dangling d sid =
     (\<forall>x \<in> set (sales_details d). d_sale_id x = sid \<longrightarrow>
        (\<forall>i. d_log_id x = Some i \<longrightarrow> i \<in> set (map l_id (inventory_logs d))))"

section \<open>Authentication and authorization\<close>

lemma split_sp_nosp: "CHR '' '' \<notin> set t \<Longrightarrow> split_sp t = [t]"
  by (induction t) auto

lemma bearer_token_header:
  "CHR '' '' \<notin> set t \<Longrightarrow> authorization req = Some (''Bearer '' @ t) \<Longrightarrow> bearer_token req = Some t"
  by (simp add: bearer_token_def startswith_def split_sp_nosp)

lemma privileged_unresolved:
  "access \<in> {''r'', ''w'', ''a''} \<Longrightarrow> resolve req w = None \<Longrightarrow>
   privileged access func req w = (Inr (Msg ''You are not authorized.'' 401), w)"
  by (simp add: privileged_def)

lemma privileged_resolved:
  "access \<in> {''r'', ''w'', ''a''} \<Longrightarrow> resolve req w = Some u \<Longrightarrow>
   privileged access func req w =
     (if ident_role u = ''d'' then (Inr (Msg ''Your authorization was revoked.'' 403), w)
      else if ident_role u = ''r'' then
        (if access = ''r'' then func req w else (Inr (Msg ''You may not perform this operation.'' 403), w))
      else if ident_role u = ''w'' then
        (if access = ''a'' then (Inr (Msg ''You may not perform this operation.'' 403), w) else func req w)
      else if ident_role u = ''a'' then func req w
      else (Inl AssertionError, w))"
  by (auto simp: privileged_def Let_def)

lemma route_access_levels: "route_access route \<in> {''r'', ''w'', ''a''}"
  by (cases route) simp_all

text \<open>
  C5. The gate of \<open>privileged\<close>, for each access level and for the routes of
  \<^verbatim>\<open>sales.py\<close>: a caller that neither the session nor a token resolves gets 401; role
  \<open>d\<close> gets 403; role \<open>r\<close> reaches the handler only at level \<open>r\<close>, role \<open>w\<close> at levels
  \<open>r\<close> and \<open>w\<close>, role \<open>a\<close> at every level. On the sales routes a reader is refused
  create, update and delete, a writer only delete, an admin nothing, a disabled user
  everything.
\<close>

theorem sales_authorization:
  fixes func :: handler
  shows
  "(\<forall>access. access \<in> {''r'', ''w'', ''a''} \<longrightarrow>
      (resolve req w = None \<longrightarrow>
         privileged access func req w = (Inr (Msg ''You are not authorized.'' 401), w))
    \<and> (\<forall>u. resolve req w = Some u \<longrightarrow>
         (ident_role u = ''d'' \<longrightarrow>
            privileged access func req w = (Inr (Msg ''Your authorization was revoked.'' 403), w))
       \<and> (ident_role u = ''r'' \<longrightarrow>
            privileged access func req w =
              (if access = ''r'' then func req w
               else (Inr (Msg ''You may not perform this operation.'' 403), w)))
       \<and> (ident_role u = ''w'' \<longrightarrow>
            privileged access func req w =
              (if access = ''r'' \<or> access = ''w'' then func req w
               else (Inr (Msg ''You may not perform this operation.'' 403), w)))
       \<and> (ident_role u = ''a'' \<longrightarrow> privileged access func req w = func req w)))
   \<and> (\<forall>route u. resolve req w = Some u \<longrightarrow>
         (ident_role u = ''r'' \<longrightarrow>
            privileged (route_access route) func req w =
              (if route \<in> {CreateSale, UpdateSale, DeleteSale}
               then (Inr (Msg ''You may not perform this operation.'' 403), w)
               else func req w))
       \<and> (ident_role u = ''w'' \<longrightarrow>
            privileged (route_access route) func req w =
              (if route = DeleteSale
               then (Inr (Msg ''You may not perform this operation.'' 403), w)
               else func req w))
       \<and> (ident_role u = ''a'' \<longrightarrow> privileged (route_access route) func req w = func req w)
       \<and> (ident_role u = ''d'' \<longrightarrow>
            privileged (route_access route) func req w =
              (Inr (Msg ''Your authorization was revoked.'' 403), w)))"
proof (intro conjI allI impI)
  fix route u assume "resolve req w = Some u" "ident_role u = ''r''"
  then show "privileged (route_access route) func req w =
              (if route \<in> {CreateSale, UpdateSale, DeleteSale}
               then (Inr (Msg ''You may not perform this operation.'' 403), w)
               else func req w)"
    by (cases route) (simp_all add: privileged_resolved)
next
  fix route u assume "resolve req w = Some u" "ident_role u = ''w''"
  then show "privileged (route_access route) func req w =
              (if route = DeleteSale
               then (Inr (Msg ''You may not perform this operation.'' 403), w)
               else func req w)"
    by (cases route) (simp_all add: privileged_resolved)
next
  fix route u assume "resolve req w = Some u" "ident_role u = ''a''"
  then show "privileged (route_access route) func req w = func req w"
    by (cases route) (simp_all add: privileged_resolved)
next
  fix route u assume "resolve req w = Some u" "ident_role u = ''d''"
  then show "privileged (route_access route) func req w =
              (Inr (Msg ''Your authorization was revoked.'' 403), w)"
    by (cases route) (simp_all add: privileged_resolved)
qed (auto simp: privileged_unresolved privileged_resolved)

lemma resolve_alice: "resolve (as_alice b) w0 = Some alice"
  by (simp add: resolve_def w0_def as_alice_def bearer_token_def startswith_def)

lemma resolve_anonymous: "resolve (anonymous b) w0 = None"
  by (simp add: resolve_def w0_def anonymous_def bearer_token_def)

theorem sales_authorization_witness:
  "privileged (route_access DeleteSale) logout (as_alice JNull) w0 =
     (Inr (Msg ''You may not perform this operation.'' 403), w0)
   \<and> privileged (route_access CreateSale) logout (as_alice JNull) w0 = logout (as_alice JNull) w0
   \<and> privileged (route_access GetSale) logout (anonymous JNull) w0 =
     (Inr (Msg ''You are not authorized.'' 401), w0)"
  using sales_authorization [of "anonymous JNull" w0 logout]
        sales_authorization [of "as_alice JNull" w0 logout]
        resolve_alice [of JNull] resolve_anonymous [of JNull]
  by (simp add: alice_def)

text \<open>A bound integer is compared as text: the username 5 finds the user named \<^verbatim>\<open>5\<close>.\<close>

lemma select_user_integer:
  "select_user [\<lparr>u_id = 3, u_username = ''5'', u_password_hash = ''h'', u_role = ''r''\<rparr>] (JInt 5) =
     Inr (Some \<lparr>u_id = 3, u_username = ''5'', u_password_hash = ''h'', u_role = ''r''\<rparr>)"
  by code_simp

lemma login_cases:
  assumes "body req = JObj kv" "truthy (dict_get kv ''username'')" "truthy (dict_get kv ''password'')"
  shows "login chk tok req w =
     (case select_user (users (db w)) (dict_get kv ''username'') of
        Inl e \<Rightarrow> (Inl e, w)
      | Inr None \<Rightarrow> (Inr (Msg ''Invalid credentials!'' 401), w)
      | Inr (Some user) \<Rightarrow>
          (case chk (u_password_hash user) (dict_get kv ''password'') of
             Inl e \<Rightarrow> (Inl e, w)
           | Inr ok \<Rightarrow>
               if \<not> ok then (Inr (Msg ''Invalid credentials!'' 401), w)
               else (Inr (LoggedIn ''Logged in.'' (identity_of user) tok),
                     w\<lparr>session := Some (identity_of user),
                       active_tokens := (active_tokens w)(tok \<mapsto> identity_of user)\<rparr>)))"
proof -
  from assms(2) have "kv \<noteq> []" by (auto simp: dict_get_def)
  with assms show ?thesis by (simp add: login_def Let_def)
qed

lemma login_failure_keeps_world:
  "login chk tok req w = (r, w') \<Longrightarrow> (\<forall>m u t. r \<noteq> Inr (LoggedIn m u t)) \<Longrightarrow> w' = w"
  by (auto simp: login_def Let_def split: if_splits json.splits sum.splits option.splits)

text \<open>
  C7. A login with an unknown username and a login with a wrong password return the same
  reply, 401 with the same message, and leave the state as it was; a login that does not
  succeed adds no token; a successful login returns a token that is stored for the
  identity of the row found (its id, its username and its role) and changes no other
  token, and a later request carrying the token resolves to that identity, with or
  without the session. A token without a space, as \<^verbatim>\<open>token_urlsafe\<close> makes them, is
  read back from the header \<^verbatim>\<open>Bearer <token>\<close>.
\<close>

theorem login_uniform_failure_and_token:
  assumes "body req = JObj kv"
    and "truthy (dict_get kv ''username'')"
    and "truthy (dict_get kv ''password'')"
  shows
  "(select_user (users (db w)) (dict_get kv ''username'') = Inr None \<longrightarrow>
      login chk tok req w = (Inr (Msg ''Invalid credentials!'' 401), w))
   \<and> (\<forall>user. select_user (users (db w)) (dict_get kv ''username'') = Inr (Some user)
         \<and> chk (u_password_hash user) (dict_get kv ''password'') = Inr False \<longrightarrow>
      login chk tok req w = (Inr (Msg ''Invalid credentials!'' 401), w))
   \<and> (\<forall>r w'. login chk tok req w = (r, w') \<and> (\<forall>m u t. r \<noteq> Inr (LoggedIn m u t)) \<longrightarrow>
         active_tokens w' = active_tokens w \<and> w' = w)
   \<and> (\<forall>user. select_user (users (db w)) (dict_get kv ''username'') = Inr (Some user)
         \<and> chk (u_password_hash user) (dict_get kv ''password'') = Inr True \<longrightarrow>
      (\<exists>w'. login chk tok req w =
            (Inr (LoggedIn ''Logged in.''
                    \<lparr>ident_id = u_id user, ident_username = u_username user,
                      ident_role = u_role user\<rparr> tok), w')
         \<and> active_tokens w' tok =
             Some \<lparr>ident_id = u_id user, ident_username = u_username user, ident_role = u_role user\<rparr>
         \<and> (\<forall>t. t \<noteq> tok \<longrightarrow> active_tokens w' t = active_tokens w t)
         \<and> db w' = db w
         \<and> (\<forall>req'. resolve req' w' =
               Some \<lparr>ident_id = u_id user, ident_username = u_username user,
                     ident_role = u_role user\<rparr>)
         \<and> (\<forall>req'. bearer_token req' = Some tok \<longrightarrow>
               resolve req' (w'\<lparr>session := None\<rparr>) =
                 Some \<lparr>ident_id = u_id user, ident_username = u_username user,
                       ident_role = u_role user\<rparr>
             \<and> get_current_user req' (w'\<lparr>session := None\<rparr>) =
                 (Inr (User \<lparr>ident_id = u_id user, ident_username = u_username user,
                              ident_role = u_role user\<rparr>), w'\<lparr>session := None\<rparr>))
         \<and> (CHR '' '' \<notin> set tok \<longrightarrow>
               (\<forall>req'. authorization req' = Some (''Bearer '' @ tok) \<longrightarrow>
                  bearer_token req' = Some tok))))"
proof (intro conjI allI impI)
  fix r w' assume h: "login chk tok req w = (r, w') \<and> (\<forall>m u t. r \<noteq> Inr (LoggedIn m u t))"
  then have "w' = w" using login_failure_keeps_world by blast
  then show "w' = w" "active_tokens w' = active_tokens w" by simp_all
next
  fix user
  assume h: "select_user (users (db w)) (dict_get kv ''username'') = Inr (Some user)
         \<and> chk (u_password_hash user) (dict_get kv ''password'') = Inr True"
  let ?i = "\<lparr>ident_id = u_id user, ident_username = u_username user, ident_role = u_role user\<rparr>"
  let ?w = "w\<lparr>session := Some ?i, active_tokens := (active_tokens w)(tok \<mapsto> ?i)\<rparr>"
  have "login chk tok req w = (Inr (LoggedIn ''Logged in.'' ?i tok), ?w)"
    using h by (simp add: login_cases [OF assms] identity_of_def)
  moreover have "active_tokens ?w tok = Some ?i" by simp
  moreover have "\<forall>t. t \<noteq> tok \<longrightarrow> active_tokens ?w t = active_tokens w t" by simp
  moreover have "db ?w = db w" by simp
  moreover have "\<forall>req'. resolve req' ?w = Some ?i" by (simp add: resolve_def)
  moreover have "\<forall>req'. bearer_token req' = Some tok \<longrightarrow>
               resolve req' (?w\<lparr>session := None\<rparr>) = Some ?i
             \<and> get_current_user req' (?w\<lparr>session := None\<rparr>) =
                 (Inr (User ?i), ?w\<lparr>session := None\<rparr>)"
    by (simp add: resolve_def get_current_user_def)
  moreover have "CHR '' '' \<notin> set tok \<longrightarrow>
               (\<forall>req'. authorization req' = Some (''Bearer '' @ tok) \<longrightarrow>
                  bearer_token req' = Some tok)"
    using bearer_token_header by blast
  ultimately show "\<exists>w'. login chk tok req w = (Inr (LoggedIn ''Logged in.'' ?i tok), w')
         \<and> active_tokens w' tok = Some ?i
         \<and> (\<forall>t. t \<noteq> tok \<longrightarrow> active_tokens w' t = active_tokens w t)
         \<and> db w' = db w
         \<and> (\<forall>req'. resolve req' w' = Some ?i)
         \<and> (\<forall>req'. bearer_token req' = Some tok \<longrightarrow>
               resolve req' (w'\<lparr>session := None\<rparr>) = Some ?i
             \<and> get_current_user req' (w'\<lparr>session := None\<rparr>) =
                 (Inr (User ?i), w'\<lparr>session := None\<rparr>))
         \<and> (CHR '' '' \<notin> set tok \<longrightarrow>
               (\<forall>req'. authorization req' = Some (''Bearer '' @ tok) \<longrightarrow>
                  bearer_token req' = Some tok))"
    by blast
qed (simp_all add: login_cases [OF assms])

lemma select_alice: "select_user (users (db w0)) (JStr ''alice'') =
   Inr (Some \<lparr>u_id = 2, u_username = ''alice'', u_password_hash = ''h2'', u_role = ''w''\<rparr>)"
  by (simp add: select_user_def w0_def shop_def)

lemma select_admin: "select_user (users (db w0)) (JStr ''admin'') =
   Inr (Some \<lparr>u_id = 1, u_username = ''admin'', u_password_hash = ''h1'', u_role = ''a''\<rparr>)"
  by (simp add: select_user_def w0_def shop_def)

lemma select_nobody: "select_user (users (db w0)) (JStr ''bob'') = Inr None"
  by (simp add: select_user_def w0_def shop_def)

theorem login_uniform_failure_and_token_witness:
  "login check_demo ''t1'' (anonymous (credentials ''bob'' ''pw'')) w0 =
     (Inr (Msg ''Invalid credentials!'' 401), w0)
   \<and> login check_demo ''t1'' (anonymous (credentials ''alice'' ''no'')) w0 =
     (Inr (Msg ''Invalid credentials!'' 401), w0)
   \<and> (\<exists>w'. login check_demo ''t1'' (anonymous (credentials ''alice'' ''pw'')) w0 =
        (Inr (LoggedIn ''Logged in.''
                \<lparr>ident_id = 2, ident_username = ''alice'', ident_role = ''w''\<rparr> ''t1''), w')
      \<and> get_current_user \<lparr>authorization = Some ''Bearer t1'', body = JNull\<rparr> (w'\<lparr>session := None\<rparr>) =
        (Inr (User \<lparr>ident_id = 2, ident_username = ''alice'', ident_role = ''w''\<rparr>),
         w'\<lparr>session := None\<rparr>))
   \<and> (\<exists>w'. login check_demo ''t2'' (anonymous (credentials ''admin'' ''root'')) w0 =
        (Inr (LoggedIn ''Logged in.''
                \<lparr>ident_id = 1, ident_username = ''admin'', ident_role = ''a''\<rparr> ''t2''), w')
      \<and> get_current_user \<lparr>authorization = Some ''Bearer t2'', body = JNull\<rparr> (w'\<lparr>session := None\<rparr>) =
        (Inr (User \<lparr>ident_id = 1, ident_username = ''admin'', ident_role = ''a''\<rparr>),
         w'\<lparr>session := None\<rparr>)
      \<and> active_tokens w' ''tok'' = Some alice)"
proof -
  let ?ra = "\<lparr>u_id = 2, u_username = ''alice'', u_password_hash = ''h2'', u_role = ''w''\<rparr>"
  let ?rd = "\<lparr>u_id = 1, u_username = ''admin'', u_password_hash = ''h1'', u_role = ''a''\<rparr>"
  have bd: "body (anonymous (credentials u p)) = JObj [(''username'', JStr u), (''password'', JStr p)]"
    for u p by (simp add: anonymous_def credentials_def)
  have un: "dict_get [(''username'', JStr u), (''password'', JStr p)] ''username'' = JStr u"
    and pw: "dict_get [(''username'', JStr u), (''password'', JStr p)] ''password'' = JStr p"
    for u p by (simp_all add: dict_get_def)
  have b1: "bearer_token \<lparr>authorization = Some ''Bearer t1'', body = JNull\<rparr> = Some ''t1''"
    by (simp add: bearer_token_def startswith_def)
  have b2: "bearer_token \<lparr>authorization = Some ''Bearer t2'', body = JNull\<rparr> = Some ''t2''"
    by (simp add: bearer_token_def startswith_def)
  have old: "active_tokens w0 ''tok'' = Some alice" by (simp add: w0_def)
  note bob = login_uniform_failure_and_token
      [of "anonymous (credentials ''bob'' ''pw'')" _ w0 check_demo "''t1''", OF bd, unfolded un pw]
  note bad = login_uniform_failure_and_token
      [of "anonymous (credentials ''alice'' ''no'')" _ w0 check_demo "''t1''", OF bd, unfolded un pw]
  note good = login_uniform_failure_and_token
      [of "anonymous (credentials ''alice'' ''pw'')" _ w0 check_demo "''t1''", OF bd, unfolded un pw]
  note root = login_uniform_failure_and_token
      [of "anonymous (credentials ''admin'' ''root'')" _ w0 check_demo "''t2''", OF bd, unfolded un pw]
  have 1: "login check_demo ''t1'' (anonymous (credentials ''bob'' ''pw'')) w0 =
     (Inr (Msg ''Invalid credentials!'' 401), w0)"
    by (rule bob [THEN conjunct1, rule_format]) (simp_all add: select_nobody)
  have 2: "login check_demo ''t1'' (anonymous (credentials ''alice'' ''no'')) w0 =
     (Inr (Msg ''Invalid credentials!'' 401), w0)"
    by (rule bad [THEN conjunct2, THEN conjunct1, rule_format, of ?ra])
       (simp_all add: select_alice check_demo_def)
  have "\<exists>w'. login check_demo ''t1'' (anonymous (credentials ''alice'' ''pw'')) w0 =
            (Inr (LoggedIn ''Logged in.''
                    \<lparr>ident_id = u_id ?ra, ident_username = u_username ?ra,
                      ident_role = u_role ?ra\<rparr> ''t1''), w')
         \<and> active_tokens w' ''t1'' =
             Some \<lparr>ident_id = u_id ?ra, ident_username = u_username ?ra, ident_role = u_role ?ra\<rparr>
         \<and> (\<forall>t. t \<noteq> ''t1'' \<longrightarrow> active_tokens w' t = active_tokens w0 t)
         \<and> db w' = db w0
         \<and> (\<forall>req'. resolve req' w' =
               Some \<lparr>ident_id = u_id ?ra, ident_username = u_username ?ra,
                     ident_role = u_role ?ra\<rparr>)
         \<and> (\<forall>req'. bearer_token req' = Some ''t1'' \<longrightarrow>
               resolve req' (w'\<lparr>session := None\<rparr>) =
                 Some \<lparr>ident_id = u_id ?ra, ident_username = u_username ?ra,
                       ident_role = u_role ?ra\<rparr>
             \<and> get_current_user req' (w'\<lparr>session := None\<rparr>) =
                 (Inr (User \<lparr>ident_id = u_id ?ra, ident_username = u_username ?ra,
                              ident_role = u_role ?ra\<rparr>), w'\<lparr>session := None\<rparr>))
         \<and> (CHR '' '' \<notin> set ''t1'' \<longrightarrow>
               (\<forall>req'. authorization req' = Some (''Bearer '' @ ''t1'') \<longrightarrow>
                  bearer_token req' = Some ''t1''))"
    by (rule good [THEN conjunct2, THEN conjunct2, THEN conjunct2, rule_format, of ?ra])
       (simp_all add: select_alice check_demo_def)
  then obtain wa where
    la: "login check_demo ''t1'' (anonymous (credentials ''alice'' ''pw'')) w0 =
            (Inr (LoggedIn ''Logged in.''
                    \<lparr>ident_id = u_id ?ra, ident_username = u_username ?ra,
                      ident_role = u_role ?ra\<rparr> ''t1''), wa)"
    and ga: "\<forall>req'. bearer_token req' = Some ''t1'' \<longrightarrow>
               resolve req' (wa\<lparr>session := None\<rparr>) =
                 Some \<lparr>ident_id = u_id ?ra, ident_username = u_username ?ra,
                       ident_role = u_role ?ra\<rparr>
             \<and> get_current_user req' (wa\<lparr>session := None\<rparr>) =
                 (Inr (User \<lparr>ident_id = u_id ?ra, ident_username = u_username ?ra,
                              ident_role = u_role ?ra\<rparr>), wa\<lparr>session := None\<rparr>)"
    by (elim exE conjE) (rule that)
  from ga [rule_format, OF b1] la
  have 3: "\<exists>w'. login check_demo ''t1'' (anonymous (credentials ''alice'' ''pw'')) w0 =
        (Inr (LoggedIn ''Logged in.''
                \<lparr>ident_id = 2, ident_username = ''alice'', ident_role = ''w''\<rparr> ''t1''), w')
      \<and> get_current_user \<lparr>authorization = Some ''Bearer t1'', body = JNull\<rparr> (w'\<lparr>session := None\<rparr>) =
        (Inr (User \<lparr>ident_id = 2, ident_username = ''alice'', ident_role = ''w''\<rparr>),
         w'\<lparr>session := None\<rparr>)"
    by (intro exI [of _ wa]) simp
  have "\<exists>w'. login check_demo ''t2'' (anonymous (credentials ''admin'' ''root'')) w0 =
            (Inr (LoggedIn ''Logged in.''
                    \<lparr>ident_id = u_id ?rd, ident_username = u_username ?rd,
                      ident_role = u_role ?rd\<rparr> ''t2''), w')
         \<and> active_tokens w' ''t2'' =
             Some \<lparr>ident_id = u_id ?rd, ident_username = u_username ?rd, ident_role = u_role ?rd\<rparr>
         \<and> (\<forall>t. t \<noteq> ''t2'' \<longrightarrow> active_tokens w' t = active_tokens w0 t)
         \<and> db w' = db w0
         \<and> (\<forall>req'. resolve req' w' =
               Some \<lparr>ident_id = u_id ?rd, ident_username = u_username ?rd,
                     ident_role = u_role ?rd\<rparr>)
         \<and> (\<forall>req'. bearer_token req' = Some ''t2'' \<longrightarrow>
               resolve req' (w'\<lparr>session := None\<rparr>) =
                 Some \<lparr>ident_id = u_id ?rd, ident_username = u_username ?rd,
                       ident_role = u_role ?rd\<rparr>
             \<and> get_current_user req' (w'\<lparr>session := None\<rparr>) =
                 (Inr (User \<lparr>ident_id = u_id ?rd, ident_username = u_username ?rd,
                              ident_role = u_role ?rd\<rparr>), w'\<lparr>session := None\<rparr>))
         \<and> (CHR '' '' \<notin> set ''t2'' \<longrightarrow>
               (\<forall>req'. authorization req' = Some (''Bearer '' @ ''t2'') \<longrightarrow>
                  bearer_token req' = Some ''t2''))"
    by (rule root [THEN conjunct2, THEN conjunct2, THEN conjunct2, rule_format, of ?rd])
       (simp_all add: select_admin check_demo_def)
  then obtain wd where
    ld: "login check_demo ''t2'' (anonymous (credentials ''admin'' ''root'')) w0 =
            (Inr (LoggedIn ''Logged in.''
                    \<lparr>ident_id = u_id ?rd, ident_username = u_username ?rd,
                      ident_role = u_role ?rd\<rparr> ''t2''), wd)"
    and od: "\<forall>t. t \<noteq> ''t2'' \<longrightarrow> active_tokens wd t = active_tokens w0 t"
    and gd: "\<forall>req'. bearer_token req' = Some ''t2'' \<longrightarrow>
               resolve req' (wd\<lparr>session := None\<rparr>) =
                 Some \<lparr>ident_id = u_id ?rd, ident_username = u_username ?rd,
                       ident_role = u_role ?rd\<rparr>
             \<and> get_current_user req' (wd\<lparr>session := None\<rparr>) =
                 (Inr (User \<lparr>ident_id = u_id ?rd, ident_username = u_username ?rd,
                              ident_role = u_role ?rd\<rparr>), wd\<lparr>session := None\<rparr>)"
    by (elim exE conjE) (rule that)
  have ne: "''tok'' \<noteq> ''t2''" by simp
  from gd [rule_format, OF b2] ld od [rule_format, OF ne] old
  have 4: "\<exists>w'. login check_demo ''t2'' (anonymous (credentials ''admin'' ''root'')) w0 =
        (Inr (LoggedIn ''Logged in.''
                \<lparr>ident_id = 1, ident_username = ''admin'', ident_role = ''a''\<rparr> ''t2''), w')
      \<and> get_current_user \<lparr>authorization = Some ''Bearer t2'', body = JNull\<rparr> (w'\<lparr>session := None\<rparr>) =
        (Inr (User \<lparr>ident_id = 1, ident_username = ''admin'', ident_role = ''a''\<rparr>),
         w'\<lparr>session := None\<rparr>)
      \<and> active_tokens w' ''tok'' = Some alice"
    by (intro exI [of _ wd]) simp
  from 1 2 3 4 show ?thesis by (intro conjI)
qed

text \<open>
  C8. Logout clears the session and changes nothing else: the token table and the
  database are as before, so a request carrying a token of the table still resolves to
  the same identity and still passes the gate at the levels its role allows.
\<close>

theorem logout_frame:
  "(\<exists>r. logout req w = (r, w\<lparr>session := None\<rparr>))
   \<and> session (snd (logout req w)) = None
   \<and> active_tokens (snd (logout req w)) = active_tokens w
   \<and> db (snd (logout req w)) = db w
   \<and> (\<forall>req' t u. bearer_token req' = Some t \<and> active_tokens w t = Some u \<longrightarrow>
        resolve req' (snd (logout req w)) = Some u
      \<and> get_current_user req' (snd (logout req w)) = (Inr (User u), snd (logout req w))
      \<and> (\<forall>access func. access \<in> {''r'', ''w'', ''a''} \<and>
           (ident_role u = ''a'' \<or> ident_role u = ''w'' \<and> access \<noteq> ''a''
            \<or> ident_role u = ''r'' \<and> access = ''r'') \<longrightarrow>
           privileged access func req' (snd (logout req w)) = func req' (snd (logout req w))))"
proof -
  have l: "logout req w = (Inr (Msg ''Logged out.'' 200), w\<lparr>session := None\<rparr>)"
    by (simp add: logout_def)
  have r: "resolve req' (w\<lparr>session := None\<rparr>) = Some u"
    if "bearer_token req' = Some t" "active_tokens w t = Some u" for req' t u
    using that by (simp add: resolve_def)
  have p: "privileged access func req' (w\<lparr>session := None\<rparr>) = func req' (w\<lparr>session := None\<rparr>)"
    if "bearer_token req' = Some t" "active_tokens w t = Some u" "access \<in> {''r'', ''w'', ''a''}"
       "ident_role u = ''a'' \<or> ident_role u = ''w'' \<and> access \<noteq> ''a'' \<or> ident_role u = ''r'' \<and> access = ''r''"
    for req' t u access and func :: handler
    using that(3,4) privileged_resolved [OF that(3) r [OF that(1,2)], of func] by auto
  show ?thesis
    unfolding l snd_conv
    by (intro conjI allI impI) (auto simp: r get_current_user_def intro: p)
qed

theorem logout_frame_witness:
  "active_tokens (snd (logout (as_alice JNull) (w0\<lparr>session := Some alice\<rparr>))) = active_tokens w0
   \<and> get_current_user (as_alice JNull) (snd (logout (as_alice JNull) (w0\<lparr>session := Some alice\<rparr>))) =
       (Inr (User alice), w0)
   \<and> privileged ''w'' get_current_user (as_alice JNull)
       (snd (logout (as_alice JNull) (w0\<lparr>session := Some alice\<rparr>))) = (Inr (User alice), w0)"
proof -
  have b: "bearer_token (as_alice JNull) = Some ''tok''"
    by (simp add: bearer_token_def startswith_def as_alice_def)
  have t: "active_tokens (w0\<lparr>session := Some alice\<rparr>) ''tok'' = Some alice"
    by (simp add: w0_def)
  have s: "snd (logout (as_alice JNull) (w0\<lparr>session := Some alice\<rparr>)) = w0"
    by (simp add: logout_def w0_def)
  show ?thesis
    using logout_frame [of "as_alice JNull" "w0\<lparr>session := Some alice\<rparr>"] b t
    unfolding s
    by (auto simp: alice_def)
qed

section \<open>The loop of create\_sale\<close>

lemma sale_item_Next:
  assumes "sale_item sch sid item d = (Next u, d')"
  shows "if affects_inventory item
         then \<exists>delta p s n. py_neg (line_field item ''quantity'') = Inr delta \<and>
            d' = d\<lparr>inventory_logs := inventory_logs d @
                     [\<lparr>l_id = next_rowid (map l_id (inventory_logs d)), l_type = ''s'',
                       l_product_id = p, l_delta = delta,
                       l_note = Automatic sid (line_field item ''note'')\<rparr>],
                   sales_details := sales_details d @
                     [\<lparr>d_id = next_rowid (map d_id (sales_details d)), d_subtotal_cents = s,
                       d_sale_id = sid,
                       d_log_id = Some (next_rowid (map l_id (inventory_logs d))), d_note = n\<rparr>]\<rparr>
         else \<exists>s n.
            d' = d\<lparr>sales_details := sales_details d @
                     [\<lparr>d_id = next_rowid (map d_id (sales_details d)), d_subtotal_cents = s,
                       d_sale_id = sid, d_log_id = None, d_note = n\<rparr>]\<rparr>"
proof (cases item)
  case (JObj kv)
  show ?thesis
  proof (cases "truthy (dict_get kv ''product_id'')")
    case True
    with assms JObj show ?thesis
      by (auto simp: sale_item_def Let_def insert_log_def insert_detail_def
                     affects_inventory_def line_field_def
               split: if_splits sum.splits option.splits prod.splits)
  next
    case False
    with assms JObj show ?thesis
      by (auto simp: sale_item_def Let_def insert_detail_def
                     affects_inventory_def line_field_def
               split: if_splits sum.splits option.splits prod.splits)
  qed
qed (use assms in \<open>simp_all add: sale_item_def\<close>)

lemma sale_item_Return:
  "sale_item sch sid item d = (Return r, d') \<Longrightarrow> d' = d \<and> (\<exists>m. r = Msg m 400)"
  by (cases item)
     (auto simp: sale_item_def Let_def split: if_splits sum.splits prod.splits)

lemma sale_items_Return:
  "sale_items sch sid items d = (Return r, d') \<Longrightarrow> \<exists>m. r = Msg m 400"
proof (induction items arbitrary: d)
  case Nil then show ?case by simp
next
  case (Cons item rest)
  show ?case
  proof (cases "sale_item sch sid item d")
    case (Pair f d1)
    with Cons show ?thesis
      by (cases f) (auto dest: sale_item_Return)
  qed
qed

lemma sale_items_append:
  "sale_items sch sid (pre @ rest) d =
     (case sale_items sch sid pre d of
        (Next u, d') \<Rightarrow> sale_items sch sid rest d'
      | (Raise e, d') \<Rightarrow> (Raise e, d')
      | (Return r, d') \<Rightarrow> (Return r, d'))"
proof (induction pre arbitrary: d)
  case Nil then show ?case by simp
next
  case (Cons item pre)
  show ?case
  proof (cases "sale_item sch sid item d")
    case (Pair f d1)
    with Cons show ?thesis by (cases f) auto
  qed
qed


section \<open>create\_sale as a whole\<close>

lemma sale_block_Inr: "\<exists>r d'. sale_block sch c uid items d = (Inr r, d')"
  by (auto simp: sale_block_def split: prod.splits flow.splits)

lemma create_sale_reach:
  assumes "body req = JObj kv" "truthy (dict_get kv ''customer_id'')"
    "dict_get kv ''details'' = JList items" "items \<noteq> []"
    "acting_user_id req w = Some uid" "uid \<noteq> 0"
  shows "create_sale sch req w =
           (fst (sale_block sch (dict_get kv ''customer_id'') uid items (db w)),
            w\<lparr>db := snd (sale_block sch (dict_get kv ''customer_id'') uid items (db w))\<rparr>)"
proof -
  from assms(2) have "kv \<noteq> []" by (auto simp: dict_get_def)
  moreover obtain r d' where "sale_block sch (dict_get kv ''customer_id'') uid items (db w) = (Inr r, d')"
    using sale_block_Inr by blast
  ultimately show ?thesis using assms
    by (simp add: create_sale_def Let_def with_database_def)
qed

lemma create_sale_at_line:
  assumes "body req = JObj kv" "truthy (dict_get kv ''customer_id'')"
    "dict_get kv ''details'' = JList (pre @ item # post)"
    "acting_user_id req w = Some uid" "uid \<noteq> 0"
    "insert_sale sch (dict_get kv ''customer_id'') uid (db w) = Inr (sid, d1)"
    "sale_items sch sid pre d1 = (Next u, d2)"
    "sale_item sch sid item d2 = (Return r, d3)"
  shows "create_sale sch req w = (Inr r, w\<lparr>db := d3\<rparr>)"
proof -
  have "sale_items sch sid (pre @ item # post) d1 = (Return r, d3)"
    using assms(7,8) by (simp add: sale_items_append)
  then have "sale_block sch (dict_get kv ''customer_id'') uid (pre @ item # post) (db w) = (Inr r, d3)"
    using assms(6) by (simp add: sale_block_def sale_try_def)
  then show ?thesis
    using create_sale_reach [OF assms(1,2,3) _ assms(4,5), of sch] by simp
qed

lemma create_sale_created:
  assumes "create_sale sch req w = (Inr (MsgId m sid c), w')"
  shows "\<exists>kv items uid d1 u. body req = JObj kv \<and> dict_get kv ''details'' = JList items
     \<and> truthy (dict_get kv ''customer_id'') \<and> items \<noteq> []
     \<and> acting_user_id req w = Some uid \<and> uid \<noteq> 0
     \<and> insert_sale sch (dict_get kv ''customer_id'') uid (db w) = Inr (sid, d1)
     \<and> sale_items sch sid items d1 = (Next u, db w') \<and> w' = w\<lparr>db := db w'\<rparr>
     \<and> m = ''Sale has been created.'' \<and> c = 201"
proof -
  from assms obtain kv where kv: "body req = JObj kv" "kv \<noteq> []"
    by (cases "body req") (auto simp: create_sale_def Let_def split: if_splits)
  from assms kv have cust: "truthy (dict_get kv ''customer_id'')"
    by (auto simp: create_sale_def Let_def split: if_splits)
  from assms kv cust obtain items where items: "dict_get kv ''details'' = JList items" "items \<noteq> []"
    by (cases "dict_get kv ''details''") (auto simp: create_sale_def Let_def split: if_splits)
  from assms kv cust items obtain uid where uid: "acting_user_id req w = Some uid" "uid \<noteq> 0"
    by (cases "acting_user_id req w") (auto simp: create_sale_def Let_def split: if_splits)
  let ?c = "dict_get kv ''customer_id''"
  from create_sale_reach [OF kv(1) cust items uid, of sch] assms
  have blk: "fst (sale_block sch ?c uid items (db w)) = Inr (MsgId m sid c)"
    and w': "w' = w\<lparr>db := snd (sale_block sch ?c uid items (db w))\<rparr>" by simp_all
  obtain f d2 where t: "sale_try sch ?c uid items (db w) = (f, d2)" by force
  have nomsgid: "sale_except e \<noteq> MsgId m sid c" for e
    by (cases e) (simp_all add: sale_except_def Let_def)
  from t blk nomsgid have f: "f = Next sid \<and> m = ''Sale has been created.'' \<and> c = 201"
  proof (cases f)
    case (Return r)
    with t obtain d1 sid' where "sale_items sch sid' items d1 = (Return r, d2)"
      by (auto simp: sale_try_def split: sum.splits prod.splits flow.splits)
    then obtain m' where "r = Msg m' 400" using sale_items_Return by blast
    with Return t blk show ?thesis by (simp add: sale_block_def)
  qed (auto simp: sale_block_def)
  with t obtain d1 u where "insert_sale sch ?c uid (db w) = Inr (sid, d1)"
      "sale_items sch sid items d1 = (Next u, d2)"
    by (auto simp: sale_try_def split: sum.splits prod.splits flow.splits)
  moreover from t f have "snd (sale_block sch ?c uid items (db w)) = d2"
    by (simp add: sale_block_def)
  ultimately show ?thesis using kv cust items uid f w' by auto
qed

lemma insert_sale_rows:
  "insert_sale sch c uid d = Inr (sid, d1) \<Longrightarrow>
   \<exists>row. d1 = d\<lparr>sales := sales d @ [row]\<rparr> \<and> s_id row = sid \<and> sid = next_rowid (map s_id (sales d))"
  by (auto simp: insert_sale_def Let_def split: sum.splits option.splits)


section \<open>Runs on the small shop\<close>

lemmas run_defs = create_sale_def sale_block_def sale_try_def sale_item_def sale_except_def
  insert_sale_def insert_log_def insert_detail_def with_database_def acting_user_id_def
  bearer_token_def startswith_def dict_get_def next_rowid_def Let_def
  w0_def shop_def as_alice_def alice_def sale_request_def product_line_def plain_line_def
  no_constraints_def lower_def lower_char_def

lemma run_two_lines:
  "create_sale no_constraints (as_alice (sale_request 1 [product_line 5 (JInt 2) 500, plain_line 100])) w0 =
     (Inr (MsgId ''Sale has been created.'' 1 201),
      w0\<lparr>db := shop\<lparr>
        inventory_logs := [\<lparr>l_id = 1, l_type = ''s'', l_product_id = SInt 5, l_delta = - 2,
                            l_note = Automatic 1 JNull\<rparr>],
        sales := [\<lparr>s_id = 1, s_customer_id = SInt 1, s_user_id = 2\<rparr>],
        sales_details := [\<lparr>d_id = 1, d_subtotal_cents = SInt 500, d_sale_id = 1,
                            d_log_id = Some 1, d_note = SNull\<rparr>,
                          \<lparr>d_id = 2, d_subtotal_cents = SInt 100, d_sale_id = 1,
                            d_log_id = None, d_note = SNull\<rparr>]\<rparr>\<rparr>)"
  by (simp add: run_defs)

section \<open>The rows a sale writes\<close>




section \<open>Partial writes\<close>

text \<open>
  C1. create\_sale is not atomic. Every \<^verbatim>\<open>return\<close> of the handler that follows the
  first insert sits inside the \<^verbatim>\<open>with\<close> block, so the connection commits what was
  written so far. First run: the second line has no subtotal; the reply is 400, and the
  sale row and the detail of the first line stay in the tables. Second run: the second
  line makes the unary minus raise; the \<^verbatim>\<open>except\<close> clause replies 500 from inside the
  block, and the sale row, the log and the detail of the first line stay.
\<close>

theorem create_sale_partial_write:
  "create_sale no_constraints
     (as_alice (sale_request 1 [plain_line 500, JObj [(''note'', JStr ''x'')]])) w0 =
     (Inr (Msg ''Each detail requires a subtotal!'' 400),
      w0\<lparr>db := shop\<lparr>
        sales := [\<lparr>s_id = 1, s_customer_id = SInt 1, s_user_id = 2\<rparr>],
        sales_details := [\<lparr>d_id = 1, d_subtotal_cents = SInt 500, d_sale_id = 1,
                            d_log_id = None, d_note = SNull\<rparr>]\<rparr>\<rparr>)
   \<and> create_sale no_constraints
     (as_alice (sale_request 1 [product_line 5 (JInt 2) 500, product_line 5 (JStr ''2'') 100])) w0 =
     (Inr (Msg (''Server error: bad operand type for unary -: '' @ [CHR 0x27] @ ''str'' @ [CHR 0x27]) 500),
      w0\<lparr>db := shop\<lparr>
        inventory_logs := [\<lparr>l_id = 1, l_type = ''s'', l_product_id = SInt 5, l_delta = - 2,
                            l_note = Automatic 1 JNull\<rparr>],
        sales := [\<lparr>s_id = 1, s_customer_id = SInt 1, s_user_id = 2\<rparr>],
        sales_details := [\<lparr>d_id = 1, d_subtotal_cents = SInt 500, d_sale_id = 1,
                            d_log_id = Some 1, d_note = SNull\<rparr>]\<rparr>\<rparr>)"
  by (simp add: run_defs)

section \<open>Validation of a line\<close>

text \<open>
  C4 (as amended). A line that references a product and whose quantity is absent or zero
  (any value Python counts as false) is rejected with 400 once the request reaches that
  line, that is once the sale row and the lines before it were written without an error,
  and the pass over that line writes no inventory log. The test is for presence only.
\<close>

theorem quantity_required:
  assumes "body req = JObj kv"
    and "truthy (dict_get kv ''customer_id'')"
    and "dict_get kv ''details'' = JList (pre @ item # post)"
    and "acting_user_id req w = Some uid" and "uid \<noteq> 0"
    and "insert_sale sch (dict_get kv ''customer_id'') uid (db w) = Inr (sid, d1)"
    and "sale_items sch sid pre d1 = (Next u, d2)"
    and "item = JObj ikv"
    and "truthy (dict_get ikv ''product_id'')"
    and "\<not> truthy (dict_get ikv ''quantity'')"
  shows "(\<exists>m. fst (create_sale sch req w) = Inr (Msg m 400)
            \<and> sale_item sch sid item d2 = (Return (Msg m 400), d2))
       \<and> inventory_logs (snd (sale_item sch sid item d2)) = inventory_logs d2"
proof -
  have "\<exists>m. sale_item sch sid item d2 = (Return (Msg m 400), d2)"
    using assms(8-10) by (simp add: sale_item_def Let_def)
  then obtain m where m: "sale_item sch sid item d2 = (Return (Msg m 400), d2)" ..
  from create_sale_at_line [OF assms(1-7) m] m show ?thesis by simp
qed

theorem quantity_required_witness:
  "fst (create_sale no_constraints (as_alice (sale_request 1 [product_line 5 (JInt 0) 500])) w0) =
     Inr (Msg ''Each detail that contains inventory change must have a quantity!'' 400)"
proof -
  let ?req = "as_alice (sale_request 1 [product_line 5 (JInt 0) 500])"
  let ?kv = "[(''customer_id'', JInt 1), (''details'', JList [product_line 5 (JInt 0) 500])]"
  let ?ikv = "[(''product_id'', JInt 5), (''quantity'', JInt 0), (''subtotal_cents'', JInt 500)]"
  let ?d1 = "shop\<lparr>sales := [\<lparr>s_id = 1, s_customer_id = SInt 1, s_user_id = 2\<rparr>]\<rparr>"
  have 1: "body ?req = JObj ?kv" by (simp add: as_alice_def sale_request_def)
  have 2: "truthy (dict_get ?kv ''customer_id'')" by (simp add: dict_get_def)
  have 3: "dict_get ?kv ''details'' = JList ([] @ product_line 5 (JInt 0) 500 # [])"
    by (simp add: dict_get_def)
  have 4: "acting_user_id ?req w0 = Some 2"
    by (simp add: acting_user_id_def w0_def as_alice_def bearer_token_def startswith_def alice_def)
  have 5: "insert_sale no_constraints (dict_get ?kv ''customer_id'') 2 (db w0) = Inr (1, ?d1)"
    by (simp add: insert_sale_def no_constraints_def dict_get_def w0_def shop_def next_rowid_def)
  have 6: "sale_items no_constraints 1 [] ?d1 = (Next (), ?d1)" by simp
  have 7: "product_line 5 (JInt 0) 500 = JObj ?ikv" by (simp add: product_line_def)
  have 8: "truthy (dict_get ?ikv ''product_id'')" "\<not> truthy (dict_get ?ikv ''quantity'')"
    by (simp_all add: dict_get_def)
  from quantity_required [OF 1 2 3 4 _ 5 6 7 8]
  show ?thesis by (auto simp: sale_item_def product_line_def dict_get_def)
qed

text \<open>
  A quantity that is not positive is not rejected: a line with quantity -3 is accepted
  with 201 and writes a log with delta +3.
\<close>

theorem negative_quantity_counterexample:
  "create_sale no_constraints (as_alice (sale_request 1 [product_line 5 (JInt (- 3)) 500])) w0 =
     (Inr (MsgId ''Sale has been created.'' 1 201),
      w0\<lparr>db := shop\<lparr>
        inventory_logs := [\<lparr>l_id = 1, l_type = ''s'', l_product_id = SInt 5, l_delta = 3,
                            l_note = Automatic 1 JNull\<rparr>],
        sales := [\<lparr>s_id = 1, s_customer_id = SInt 1, s_user_id = 2\<rparr>],
        sales_details := [\<lparr>d_id = 1, d_subtotal_cents = SInt 500, d_sale_id = 1,
                            d_log_id = Some 1, d_note = SNull\<rparr>]\<rparr>\<rparr>)"
  by (simp add: run_defs)

text \<open>
  C9 (as amended). Zero is treated as absent: a body whose \<^verbatim>\<open>customer_id\<close> is 0 or
  missing gets 400 \<^verbatim>\<open>A customer is required!\<close> and changes nothing; a line whose
  \<^verbatim>\<open>subtotal_cents\<close> is 0 or missing, and a line with a product whose quantity is 0 or
  missing, get the 400 of the missing field, provided the request reaches that line (the
  acting user resolves, the sale row is inserted and the lines before it are written
  without an error).
\<close>

theorem zero_as_absent:
  "(body req = JObj kv \<and> kv \<noteq> []
      \<and> (dict_get kv ''customer_id'' = JNull \<or> dict_get kv ''customer_id'' = JInt 0) \<longrightarrow>
      create_sale sch req w = (Inr (Msg ''A customer is required!'' 400), w))
   \<and> (body req = JObj kv \<and> truthy (dict_get kv ''customer_id'')
      \<and> dict_get kv ''details'' = JList (pre @ JObj ikv # post)
      \<and> acting_user_id req w = Some uid \<and> uid \<noteq> 0
      \<and> insert_sale sch (dict_get kv ''customer_id'') uid (db w) = Inr (sid, d1)
      \<and> sale_items sch sid pre d1 = (Next u, d2)
      \<and> (dict_get ikv ''subtotal_cents'' = JNull \<or> dict_get ikv ''subtotal_cents'' = JInt 0) \<longrightarrow>
      fst (create_sale sch req w) = Inr (Msg ''Each detail requires a subtotal!'' 400))
   \<and> (body req = JObj kv \<and> truthy (dict_get kv ''customer_id'')
      \<and> dict_get kv ''details'' = JList (pre @ JObj ikv # post)
      \<and> acting_user_id req w = Some uid \<and> uid \<noteq> 0
      \<and> insert_sale sch (dict_get kv ''customer_id'') uid (db w) = Inr (sid, d1)
      \<and> sale_items sch sid pre d1 = (Next u, d2)
      \<and> truthy (dict_get ikv ''subtotal_cents'') \<and> truthy (dict_get ikv ''product_id'')
      \<and> (dict_get ikv ''quantity'' = JNull \<or> dict_get ikv ''quantity'' = JInt 0) \<longrightarrow>
      fst (create_sale sch req w) =
        Inr (Msg ''Each detail that contains inventory change must have a quantity!'' 400))"
proof (intro conjI impI)
  assume "body req = JObj kv \<and> kv \<noteq> []
      \<and> (dict_get kv ''customer_id'' = JNull \<or> dict_get kv ''customer_id'' = JInt 0)"
  then show "create_sale sch req w = (Inr (Msg ''A customer is required!'' 400), w)"
    by (auto simp: create_sale_def Let_def)
next
  assume h: "body req = JObj kv \<and> truthy (dict_get kv ''customer_id'')
      \<and> dict_get kv ''details'' = JList (pre @ JObj ikv # post)
      \<and> acting_user_id req w = Some uid \<and> uid \<noteq> 0
      \<and> insert_sale sch (dict_get kv ''customer_id'') uid (db w) = Inr (sid, d1)
      \<and> sale_items sch sid pre d1 = (Next u, d2)
      \<and> (dict_get ikv ''subtotal_cents'' = JNull \<or> dict_get ikv ''subtotal_cents'' = JInt 0)"
  then have "sale_item sch sid (JObj ikv) d2 = (Return (Msg ''Each detail requires a subtotal!'' 400), d2)"
    by (auto simp: sale_item_def Let_def)
  with h create_sale_at_line [of req kv pre "JObj ikv" post w uid sch sid d1 u d2]
  show "fst (create_sale sch req w) = Inr (Msg ''Each detail requires a subtotal!'' 400)"
    by simp
next
  assume h: "body req = JObj kv \<and> truthy (dict_get kv ''customer_id'')
      \<and> dict_get kv ''details'' = JList (pre @ JObj ikv # post)
      \<and> acting_user_id req w = Some uid \<and> uid \<noteq> 0
      \<and> insert_sale sch (dict_get kv ''customer_id'') uid (db w) = Inr (sid, d1)
      \<and> sale_items sch sid pre d1 = (Next u, d2)
      \<and> truthy (dict_get ikv ''subtotal_cents'') \<and> truthy (dict_get ikv ''product_id'')
      \<and> (dict_get ikv ''quantity'' = JNull \<or> dict_get ikv ''quantity'' = JInt 0)"
  then have "sale_item sch sid (JObj ikv) d2 =
     (Return (Msg ''Each detail that contains inventory change must have a quantity!'' 400), d2)"
    by (auto simp: sale_item_def Let_def)
  with h create_sale_at_line [of req kv pre "JObj ikv" post w uid sch sid d1 u d2]
  show "fst (create_sale sch req w) =
        Inr (Msg ''Each detail that contains inventory change must have a quantity!'' 400)"
    by simp
qed

theorem zero_as_absent_witness:
  "create_sale no_constraints (as_alice (sale_request 0 [plain_line 500])) w0 =
     (Inr (Msg ''A customer is required!'' 400), w0)
   \<and> fst (create_sale no_constraints (as_alice (sale_request 1 [plain_line 0])) w0) =
     Inr (Msg ''Each detail requires a subtotal!'' 400)
   \<and> fst (create_sale no_constraints (as_alice (sale_request 1 [JObj [(''note'', JStr ''x'')]])) w0) =
     Inr (Msg ''Each detail requires a subtotal!'' 400)
   \<and> fst (create_sale no_constraints (as_alice (sale_request 1 [product_line 5 (JInt 0) 500])) w0) =
     Inr (Msg ''Each detail that contains inventory change must have a quantity!'' 400)"
proof -
  let ?d1 = "shop\<lparr>sales := [\<lparr>s_id = 1, s_customer_id = SInt 1, s_user_id = 2\<rparr>]\<rparr>"
  have u: "acting_user_id (as_alice b) w0 = Some 2" for b
    by (simp add: acting_user_id_def w0_def as_alice_def bearer_token_def startswith_def alice_def)
  have ins: "insert_sale no_constraints (JInt 1) 2 (db w0) = Inr (1, ?d1)"
    by (simp add: insert_sale_def no_constraints_def w0_def shop_def next_rowid_def)
  have nil: "sale_items no_constraints 1 [] ?d1 = (Next (), ?d1)" by simp
  have a: "create_sale no_constraints (as_alice (sale_request 0 [plain_line 500])) w0 =
     (Inr (Msg ''A customer is required!'' 400), w0)"
    using zero_as_absent [of "as_alice (sale_request 0 [plain_line 500])"
        "[(''customer_id'', JInt 0), (''details'', JList [plain_line 500])]" no_constraints w0]
    by (simp add: as_alice_def sale_request_def dict_get_def)
  have b: "fst (create_sale no_constraints (as_alice (sale_request 1 [plain_line 0])) w0) =
     Inr (Msg ''Each detail requires a subtotal!'' 400)"
    using zero_as_absent [of "as_alice (sale_request 1 [plain_line 0])"
        "[(''customer_id'', JInt 1), (''details'', JList [plain_line 0])]" no_constraints w0
        "[]" "[(''subtotal_cents'', JInt 0)]" "[]" 2 1 ?d1 "()" ?d1] u ins nil
    by (simp add: as_alice_def sale_request_def dict_get_def plain_line_def)
  have c: "fst (create_sale no_constraints (as_alice (sale_request 1 [JObj [(''note'', JStr ''x'')]])) w0) =
     Inr (Msg ''Each detail requires a subtotal!'' 400)"
    using zero_as_absent [of "as_alice (sale_request 1 [JObj [(''note'', JStr ''x'')]])"
        "[(''customer_id'', JInt 1), (''details'', JList [JObj [(''note'', JStr ''x'')]])]" no_constraints w0
        "[]" "[(''note'', JStr ''x'')]" "[]" 2 1 ?d1 "()" ?d1] u ins nil
    by (simp add: as_alice_def sale_request_def dict_get_def)
  have d: "fst (create_sale no_constraints (as_alice (sale_request 1 [product_line 5 (JInt 0) 500])) w0) =
     Inr (Msg ''Each detail that contains inventory change must have a quantity!'' 400)"
    using zero_as_absent [of "as_alice (sale_request 1 [product_line 5 (JInt 0) 500])"
        "[(''customer_id'', JInt 1), (''details'', JList [product_line 5 (JInt 0) 500])]" no_constraints w0
        "[]" "[(''product_id'', JInt 5), (''quantity'', JInt 0), (''subtotal_cents'', JInt 500)]"
        "[]" 2 1 ?d1 "()" ?d1] u ins nil
    by (simp add: as_alice_def sale_request_def dict_get_def product_line_def)
  from a b c d show ?thesis by blast
qed

text \<open>
  Without the proviso the claim fails: when an earlier line raises, the reply is that
  line's error and the line with the zero is never looked at.
\<close>

theorem zero_subtotal_counterexample:
  "line_field (plain_line 0) ''subtotal_cents'' = JInt 0
   \<and> fst (create_sale no_constraints
       (as_alice (sale_request 1 [product_line 5 (JStr ''2'') 500, plain_line 0])) w0) =
     Inr (Msg (''Server error: bad operand type for unary -: '' @ [CHR 0x27] @ ''str'' @ [CHR 0x27]) 500)"
  by (simp add: run_defs line_field_def)

section \<open>Errors of create\_sale\<close>

lemma create_sale_raise:
  assumes "body req = JObj kv" "truthy (dict_get kv ''customer_id'')"
    "dict_get kv ''details'' = JList items" "items \<noteq> []"
    "acting_user_id req w = Some uid" "uid \<noteq> 0"
    "sale_try sch (dict_get kv ''customer_id'') uid items (db w) = (Raise e, d')"
  shows "create_sale sch req w = (Inr (sale_except e), w\<lparr>db := d'\<rparr>)"
  using create_sale_reach [OF assms(1-6), of sch] assms(7) by (simp add: sale_block_def)

text \<open>
  C6 (as amended). Every exception raised inside the \<^verbatim>\<open>try\<close> block that is not an
  integrity error surfaces as a 500 whose message is \<^verbatim>\<open>Server error: \<close> followed by
  the text of the exception: the reply is not opaque. How integrity errors are told
  apart is not part of this statement.
\<close>

theorem create_sale_server_error:
  assumes "body req = JObj kv"
    and "truthy (dict_get kv ''customer_id'')"
    and "dict_get kv ''details'' = JList items" and "items \<noteq> []"
    and "acting_user_id req w = Some uid" and "uid \<noteq> 0"
    and "sale_try sch (dict_get kv ''customer_id'') uid items (db w) = (Raise e, d')"
    and "\<forall>m. e \<noteq> IntegrityError m"
  shows "fst (create_sale sch req w) = Inr (Msg (''Server error: '' @ str_exc e) 500)"
  unfolding create_sale_raise [OF assms(1-7)] fst_conv
  using assms(8) by (cases e) (simp_all add: sale_except_def Let_def)

theorem create_sale_server_error_witness:
  "fst (create_sale no_constraints (as_alice (sale_request 1 [product_line 5 (JStr ''2'') 500])) w0) =
     Inr (Msg (''Server error: '' @
               str_exc (TypeError (''bad operand type for unary -: '' @ [CHR 0x27] @ ''str'' @ [CHR 0x27]))) 500)
   \<and> fst (create_sale no_constraints (as_alice (sale_request 1 [JInt 7])) w0) =
     Inr (Msg (''Server error: '' @ str_exc (no_get (JInt 7))) 500)"
proof -
  let ?i1 = "[product_line 5 (JStr ''2'') 500]"
  let ?kv1 = "[(''customer_id'', JInt 1), (''details'', JList ?i1)]"
  let ?i2 = "[JInt 7]"
  let ?kv2 = "[(''customer_id'', JInt 1), (''details'', JList ?i2)]"
  let ?d1 = "shop\<lparr>sales := [\<lparr>s_id = 1, s_customer_id = SInt 1, s_user_id = 2\<rparr>]\<rparr>"
  have u: "acting_user_id (as_alice b) w0 = Some 2" for b
    by (simp add: acting_user_id_def w0_def as_alice_def bearer_token_def startswith_def alice_def)
  have t1: "sale_try no_constraints (dict_get ?kv1 ''customer_id'') 2 ?i1 (db w0) =
     (Raise (TypeError (''bad operand type for unary -: '' @ [CHR 0x27] @ ''str'' @ [CHR 0x27])), ?d1)"
    by (simp add: run_defs)
  have t2: "sale_try no_constraints (dict_get ?kv2 ''customer_id'') 2 ?i2 (db w0) =
     (Raise (no_get (JInt 7)), ?d1)"
    by (simp add: run_defs)
  have a: "fst (create_sale no_constraints (as_alice (sale_request 1 ?i1)) w0) =
     Inr (Msg (''Server error: '' @
               str_exc (TypeError (''bad operand type for unary -: '' @ [CHR 0x27] @ ''str'' @ [CHR 0x27]))) 500)"
    using create_sale_server_error [OF _ _ _ _ u _ t1, of "sale_request 1 ?i1"]
    by (simp add: as_alice_def sale_request_def dict_get_def)
  have b: "fst (create_sale no_constraints (as_alice (sale_request 1 ?i2)) w0) =
     Inr (Msg (''Server error: '' @ str_exc (no_get (JInt 7))) 500)"
    using create_sale_server_error [OF _ _ _ _ u _ t2, of "sale_request 1 ?i2"]
    by (simp add: as_alice_def sale_request_def dict_get_def no_get_def)
  from a b show ?thesis by blast
qed

text \<open>
  The 500 reply is not opaque: a quantity sent as a string makes the unary minus raise,
  and the reply carries the text of that exception.
\<close>

theorem server_error_text_counterexample:
  "fst (create_sale no_constraints (as_alice (sale_request 1 [product_line 5 (JStr ''2'') 500])) w0) =
     Inr (Msg (''Server error: bad operand type for unary -: '' @ [CHR 0x27] @ ''str'' @ [CHR 0x27]) 500)"
  by (simp add: run_defs)

section \<open>delete\_sale\<close>

lemma delete_block_Inr:
  assumes "delete_block sch sid d = (Inr r, d')"
  shows "d' = d\<lparr>inventory_logs :=
                filter (\<lambda>l. l_id l \<notin> set (List.map_filter d_log_id
                          (filter (\<lambda>r. d_sale_id r = sid) (sales_details d))))
                       (inventory_logs d),
              sales_details := filter (\<lambda>r. d_sale_id r \<noteq> sid) (sales_details d),
              sales := filter (\<lambda>s. s_id s \<noteq> sid) (sales d)\<rparr>
       \<and> r = (if filter (\<lambda>s. s_id s = sid) (sales d) = [] then Msg ''Sale is not found!'' 404
              else Msg ''Sale has been deleted.'' 200)"
proof (cases "List.map_filter d_log_id (filter (\<lambda>r. d_sale_id r = sid) (sales_details d)) = []")
  case True
  with assms show ?thesis
    by (auto simp: delete_block_def Let_def delete_details_def delete_sale_row_def
             split: sum.splits option.splits if_splits)
next
  case False
  with assms show ?thesis
    by (auto simp: delete_block_def Let_def delete_logs_def delete_details_def delete_sale_row_def
             split: sum.splits option.splits if_splits)
qed

lemma delete_sale_Inl: "delete_sale sch sid req w = (Inl e, w') \<Longrightarrow> w' = w"
  by (auto simp: delete_sale_def with_database_def split: prod.splits sum.splits)

lemma delete_sale_Inr:
  "delete_sale sch sid req w = (Inr r, w') \<Longrightarrow>
   \<exists>d'. delete_block sch sid (db w) = (Inr r, d') \<and> w' = w\<lparr>db := d'\<rparr>"
  by (auto simp: delete_sale_def with_database_def split: prod.splits sum.splits)

text \<open>
  C3. delete\_sale is one atomic unit: when a statement raises, the state is what it was;
  otherwise the logs that the details of the sale reference, then those details, then
  the sale row are removed and nothing else changes. The reply is 404 exactly when the
  last delete finds no row, that is when no sale has the id, and 200 otherwise. Deleting
  the same id again replies 404 and changes nothing.
\<close>

theorem delete_sale_cascade:
  "(\<forall>e w'. delete_sale sch sale_id req w = (Inl e, w') \<longrightarrow> w' = w)
   \<and> (\<forall>r w'. delete_sale sch sale_id req w = (Inr r, w') \<longrightarrow>
        inventory_logs (db w') =
          filter (\<lambda>l. l_id l \<notin> set (List.map_filter d_log_id
                    (filter (\<lambda>r. d_sale_id r = sale_id) (sales_details (db w)))))
                 (inventory_logs (db w))
      \<and> sales_details (db w') = filter (\<lambda>r. d_sale_id r \<noteq> sale_id) (sales_details (db w))
      \<and> sales (db w') = filter (\<lambda>s. s_id s \<noteq> sale_id) (sales (db w))
      \<and> users (db w') = users (db w) \<and> customers (db w') = customers (db w)
      \<and> products (db w') = products (db w)
      \<and> session w' = session w \<and> active_tokens w' = active_tokens w
      \<and> (r = Msg ''Sale is not found!'' 404) = (filter (\<lambda>s. s_id s = sale_id) (sales (db w)) = [])
      \<and> (r = Msg ''Sale has been deleted.'' 200) = (filter (\<lambda>s. s_id s = sale_id) (sales (db w)) \<noteq> [])
      \<and> (\<forall>req2 r2 w2. delete_sale sch sale_id req2 w' = (Inr r2, w2) \<longrightarrow>
            r2 = Msg ''Sale is not found!'' 404 \<and> w2 = w'))"
proof (intro conjI allI impI)
  fix e w' assume "delete_sale sch sale_id req w = (Inl e, w')"
  then show "w' = w" by (rule delete_sale_Inl)
next
  fix r w' assume a: "delete_sale sch sale_id req w = (Inr r, w')"
  from delete_sale_Inr [OF a] obtain d' where
    blk: "delete_block sch sale_id (db w) = (Inr r, d')" and w': "w' = w\<lparr>db := d'\<rparr>" by blast
  note d' = delete_block_Inr [OF blk]
  from d' w' show "inventory_logs (db w') =
          filter (\<lambda>l. l_id l \<notin> set (List.map_filter d_log_id
                    (filter (\<lambda>r. d_sale_id r = sale_id) (sales_details (db w)))))
                 (inventory_logs (db w))"
    "sales_details (db w') = filter (\<lambda>r. d_sale_id r \<noteq> sale_id) (sales_details (db w))"
    "sales (db w') = filter (\<lambda>s. s_id s \<noteq> sale_id) (sales (db w))"
    "users (db w') = users (db w)" "customers (db w') = customers (db w)"
    "products (db w') = products (db w)"
    "session w' = session w" "active_tokens w' = active_tokens w"
    "(r = Msg ''Sale is not found!'' 404) = (filter (\<lambda>s. s_id s = sale_id) (sales (db w)) = [])"
    "(r = Msg ''Sale has been deleted.'' 200) = (filter (\<lambda>s. s_id s = sale_id) (sales (db w)) \<noteq> [])"
    by simp_all
  fix req2 r2 w2 assume b: "delete_sale sch sale_id req2 w' = (Inr r2, w2)"
  from delete_sale_Inr [OF b] obtain d2 where
    blk2: "delete_block sch sale_id (db w') = (Inr r2, d2)" and w2: "w2 = w'\<lparr>db := d2\<rparr>" by blast
  have nd: "filter (\<lambda>r. d_sale_id r = sale_id) (sales_details (db w')) = []"
    and ns: "filter (\<lambda>s. s_id s = sale_id) (sales (db w')) = []"
    using d' w' by (simp_all add: filter_empty_conv)
  from delete_block_Inr [OF blk2] have "r2 = Msg ''Sale is not found!'' 404" and "d2 = db w'"
    unfolding nd ns
    by (simp_all add: List.map_filter_simps filter_id_conv filter_empty_conv [symmetric] nd ns)
  with w2 show "r2 = Msg ''Sale is not found!'' 404" "w2 = w'" by simp_all
qed

theorem delete_sale_cascade_witness:
  "delete_sale no_constraints 1 (as_alice JNull) (w0\<lparr>db := sold\<rparr>) =
     (Inr (Msg ''Sale has been deleted.'' 200), w0)
   \<and> delete_sale no_constraints 1 (as_alice JNull) w0 = (Inr (Msg ''Sale is not found!'' 404), w0)"
proof -
  have 1: "delete_sale no_constraints 1 (as_alice JNull) (w0\<lparr>db := sold\<rparr>) =
     (Inr (Msg ''Sale has been deleted.'' 200), w0)"
    by (simp add: delete_sale_def delete_block_def delete_logs_def delete_details_def
          delete_sale_row_def with_database_def no_constraints_def sold_def w0_def shop_def
          List.map_filter_simps Let_def)
  obtain r2 w2 where 2: "delete_sale no_constraints 1 (as_alice JNull) w0 = (Inr r2, w2)"
    by (simp add: delete_sale_def delete_block_def delete_logs_def delete_details_def
          delete_sale_row_def with_database_def no_constraints_def w0_def shop_def
          List.map_filter_simps Let_def)
  from delete_sale_cascade [of no_constraints 1 "as_alice JNull" "w0\<lparr>db := sold\<rparr>"] 1 2
  have "r2 = Msg ''Sale is not found!'' 404 \<and> w2 = w0" by blast
  with 1 2 show ?thesis by simp
qed

section \<open>Reading a sale back\<close>

lemma next_rowid_greater: "i \<in> set ids \<Longrightarrow> i < next_rowid ids"
proof (cases ids)
  case Nil then show "i \<in> set ids \<Longrightarrow> ?thesis" by simp
next
  case (Cons a rest)
  assume "i \<in> set ids"
  then have "i \<le> Max (set (a # rest))" using Cons by (intro Max_ge) auto
  also have "\<dots> = fold max rest a" by (rule Max.set_eq_fold)
  finally show ?thesis using Cons by (simp add: next_rowid_def)
qed

lemma next_rowid_fresh: "next_rowid ids \<notin> set ids"
  using next_rowid_greater [of "next_rowid ids" ids] by auto

lemma insort_key_snoc:
  "f x \<le> f y \<Longrightarrow> insort_key f x (zs @ [y]) = insort_key f x zs @ [y]"
  by (induction zs) auto

lemma foldr_insort_key_snoc:
  "\<forall>x \<in> set xs. f x \<le> f y \<Longrightarrow>
   foldr (insort_key f) xs (zs @ [y]) = foldr (insort_key f) xs zs @ [y]"
  by (induction xs) (auto simp: insort_key_snoc)

lemma sort_key_snoc:
  "\<forall>x \<in> set xs. f x \<le> f y \<Longrightarrow> sort_key f (xs @ [y]) = sort_key f xs @ [y]"
  using foldr_insort_key_snoc [of xs f y "[]"] by (simp add: sort_key_def)

lemma left_join_append: "left_join (xs @ ys) m = left_join xs m @ left_join ys m"
  by (simp add: left_join_def)

lemma left_join_cong: "(\<And>x. x \<in> set xs \<Longrightarrow> m x = m' x) \<Longrightarrow> left_join xs m = left_join xs m'"
  by (simp add: left_join_def cong: map_cong)

lemma filter_distinct_key:
  "distinct (map f xs) \<Longrightarrow> filter (\<lambda>x. f x = k) xs = [] \<or> (\<exists>x. filter (\<lambda>x. f x = k) xs = [x])"
proof (induction xs)
  case Nil then show ?case by simp
next
  case (Cons a xs)
  then show ?case
    by (auto simp: filter_empty_conv image_iff)
qed

lemma select_details_step:
  assumes nd: "no_dangling d sid"
    and dp: "distinct (map p_id (products d))"
    and d1: "d1 = d\<lparr>inventory_logs := inventory_logs d @ nl,
                   sales_details := sales_details d @ [r]\<rparr>"
    and r: "d_sale_id r = sid" "d_id r = next_rowid (map d_id (sales_details d))"
    and nl: "(nl = [] \<and> d_log_id r = None) \<or>
             (\<exists>l. nl = [l] \<and> l_id l = next_rowid (map l_id (inventory_logs d))
                  \<and> d_log_id r = Some (l_id l))"
  shows "no_dangling d1 sid
       \<and> map v_quantity (select_details d1 sid) =
           map v_quantity (select_details d sid) @ [map_option (\<lambda>l. - l_delta l) (case nl of [] \<Rightarrow> None | l # _ \<Rightarrow> Some l)]"
proof -
  let ?P = "\<lambda>x. d_sale_id x = sid"
  let ?S = "sort_key d_id (filter ?P (sales_details d))"
  let ?m1 = "\<lambda>d x. filter (\<lambda>l. d_log_id x = Some (l_id l)) (inventory_logs d)"
  let ?m2 = "\<lambda>d (j :: detail_row \<times> log_row option). case snd j of
                    None \<Rightarrow> []
                  | Some l \<Rightarrow> filter (\<lambda>p. l_product_id l = SInt (p_id p)) (products d)"
  have fresh_l: "next_rowid (map l_id (inventory_logs d)) \<notin> set (map l_id (inventory_logs d))"
    by (rule next_rowid_fresh)
  have nd1: "no_dangling d1 sid"
    using nd nl unfolding no_dangling_def d1 by auto
  have S1: "sort_key d_id (filter ?P (sales_details d1)) = ?S @ [r]"
  proof -
    have "\<forall>x \<in> set (filter ?P (sales_details d)). d_id x \<le> d_id r"
      using next_rowid_greater [of _ "map d_id (sales_details d)"] r(2) by fastforce
    then show ?thesis using r(1) by (simp add: d1 sort_key_snoc)
  qed
  have old: "?m1 d1 x = ?m1 d x" if "x \<in> set ?S" for x
  proof -
    from that have x: "x \<in> set (sales_details d)" "d_sale_id x = sid" by auto
    with nd have ref: "\<forall>i. d_log_id x = Some i \<longrightarrow> i \<in> set (map l_id (inventory_logs d))"
      unfolding no_dangling_def by blast
    from nl show ?thesis
    proof
      assume "nl = [] \<and> d_log_id r = None"
      then show ?thesis by (simp add: d1)
    next
      assume "\<exists>l. nl = [l] \<and> l_id l = next_rowid (map l_id (inventory_logs d))
                  \<and> d_log_id r = Some (l_id l)"
      then obtain l where l: "nl = [l]" "l_id l = next_rowid (map l_id (inventory_logs d))" by blast
      with ref fresh_l have "d_log_id x \<noteq> Some (l_id l)" by auto
      with l show ?thesis by (simp add: d1)
    qed
  qed
  have new: "left_join [r] (?m1 d1) = [(r, case nl of [] \<Rightarrow> None | l # _ \<Rightarrow> Some l)]"
    using nl
  proof
    assume "nl = [] \<and> d_log_id r = None"
    then show ?thesis by (simp add: d1 left_join_def)
  next
    assume "\<exists>l. nl = [l] \<and> l_id l = next_rowid (map l_id (inventory_logs d))
                  \<and> d_log_id r = Some (l_id l)"
    then obtain l where l: "nl = [l]" "l_id l = next_rowid (map l_id (inventory_logs d))"
        "d_log_id r = Some (l_id l)" by blast
    with fresh_l have "filter (\<lambda>l'. d_log_id r = Some (l_id l')) (inventory_logs d) = []"
      by (auto simp: filter_empty_conv)
    with l show ?thesis by (simp add: d1 left_join_def)
  qed
  have J1: "left_join (?S @ [r]) (?m1 d1) =
            left_join ?S (?m1 d) @ [(r, case nl of [] \<Rightarrow> None | l # _ \<Rightarrow> Some l)]"
    using left_join_cong [of ?S "?m1 d1" "?m1 d", OF old] new
    by (simp add: left_join_append)
  have pr: "products d1 = products d" by (simp add: d1)
  have m2: "?m2 d1 = ?m2 d" unfolding pr ..
  have one: "\<exists>p. left_join [(r, il)] (?m2 d) = [((r, il), p)]" for il
  proof (cases il)
    case None then show ?thesis by (simp add: left_join_def)
  next
    case (Some l)
    show ?thesis
    proof (cases "l_product_id l")
      case (SInt k)
      from filter_distinct_key [OF dp, of k]
      show ?thesis using Some SInt by (auto simp: left_join_def eq_commute [of k])
    qed (use Some in \<open>simp_all add: left_join_def\<close>)
  qed
  then obtain p where p: "left_join [(r, case nl of [] \<Rightarrow> None | l # _ \<Rightarrow> Some l)] (?m2 d) =
      [((r, case nl of [] \<Rightarrow> None | l # _ \<Rightarrow> Some l), p)]" by blast
  have "select_details d1 sid =
        map detail_view_of (left_join (left_join (?S @ [r]) (?m1 d1)) (?m2 d1))"
    unfolding select_details_def Let_def S1 ..
  also have "\<dots> = map detail_view_of
        (left_join (left_join ?S (?m1 d) @ [(r, case nl of [] \<Rightarrow> None | l # _ \<Rightarrow> Some l)]) (?m2 d))"
    by (simp only: J1 m2)
  also have "\<dots> = map detail_view_of (left_join (left_join ?S (?m1 d)) (?m2 d)) @
        [detail_view_of ((r, case nl of [] \<Rightarrow> None | l # _ \<Rightarrow> Some l), p)]"
    by (simp only: left_join_append p map_append list.map)
  also have "map detail_view_of (left_join (left_join ?S (?m1 d)) (?m2 d)) = select_details d sid"
    unfolding select_details_def Let_def ..
  finally have "select_details d1 sid =
        select_details d sid @ [detail_view_of ((r, case nl of [] \<Rightarrow> None | l # _ \<Rightarrow> Some l), p)]" .
  then show ?thesis using nd1 by (simp add: detail_view_of_def)
qed

lemma requested_quantity_neg:
  "affects_inventory item \<Longrightarrow> py_neg (line_field item ''quantity'') = Inr delta \<Longrightarrow>
   requested_quantity item = Some (- delta)"
  by (cases "line_field item ''quantity''") (auto simp: requested_quantity_def)

lemma sale_items_views:
  "no_dangling d sid \<Longrightarrow> distinct (map p_id (products d)) \<Longrightarrow>
   sale_items sch sid items d = (Next u, d') \<Longrightarrow>
   no_dangling d' sid \<and> products d' = products d \<and> sales d' = sales d \<and>
   map v_quantity (select_details d' sid) =
     map v_quantity (select_details d sid) @ map requested_quantity items"
proof (induction items arbitrary: d)
  case Nil
  then show ?case by simp
next
  case (Cons item rest)
  obtain f d1 where s: "sale_item sch sid item d = (f, d1)" by force
  with Cons.prems(3) obtain u1 where f: "f = Next u1" by (cases f) auto
  with s Cons.prems(3) have r: "sale_items sch sid rest d1 = (Next u, d')" by simp
  note step = sale_item_Next [OF s [unfolded f]]
  have d1: "no_dangling d1 sid \<and> products d1 = products d \<and> sales d1 = sales d \<and>
     map v_quantity (select_details d1 sid) =
       map v_quantity (select_details d sid) @ [requested_quantity item]"
  proof (cases "affects_inventory item")
    case True
    with step obtain delta p s' n where
      q: "py_neg (line_field item ''quantity'') = Inr delta" and
      e: "d1 = d\<lparr>inventory_logs := inventory_logs d @
                     [\<lparr>l_id = next_rowid (map l_id (inventory_logs d)), l_type = ''s'',
                       l_product_id = p, l_delta = delta,
                       l_note = Automatic sid (line_field item ''note'')\<rparr>],
                   sales_details := sales_details d @
                     [\<lparr>d_id = next_rowid (map d_id (sales_details d)), d_subtotal_cents = s',
                       d_sale_id = sid,
                       d_log_id = Some (next_rowid (map l_id (inventory_logs d))), d_note = n\<rparr>]\<rparr>"
      by auto
    from select_details_step [OF Cons.prems(1,2) e] requested_quantity_neg [OF True q]
    show ?thesis by (simp add: e)
  next
    case False
    with step obtain s' n where
      e: "d1 = d\<lparr>inventory_logs := inventory_logs d @ [],
                   sales_details := sales_details d @
                     [\<lparr>d_id = next_rowid (map d_id (sales_details d)), d_subtotal_cents = s',
                       d_sale_id = sid, d_log_id = None, d_note = n\<rparr>]\<rparr>"
      by auto
    from select_details_step [OF Cons.prems(1,2) e] False
    show ?thesis by (simp add: e requested_quantity_def)
  qed
  with Cons.prems(2) have "distinct (map p_id (products d1))" by simp
  from Cons.IH [OF _ this r] d1 show ?case by simp
qed

lemma find_snoc_fresh:
  "\<forall>x \<in> set xs. \<not> P x \<Longrightarrow> P y \<Longrightarrow> find P (xs @ [y]) = Some y"
  by (induction xs) auto

text \<open>
  C10. Quantity round-trips through the ledger: after create\_sale answers 201 with a
  sale id, get\_sale on that id finds the sale and reports one row per line of the
  request, in order, whose quantity is the quantity the line asked for (null for a line
  without a product). The tables are assumed to be as the handlers leave them: every
  detail belongs to a sale that exists, and product ids are unique.
\<close>

theorem quantity_round_trip:
  assumes "create_sale sch req w = (Inr (MsgId m sid c), w')"
    and "body req = JObj kv" and "dict_get kv ''details'' = JList items"
    and "\<forall>r \<in> set (sales_details (db w)). d_sale_id r \<in> set (map s_id (sales (db w)))"
    and "distinct (map p_id (products (db w)))"
  shows "\<exists>customer user views.
           get_sale sid req' w' = (Inr (SaleView sid customer user views), w')
         \<and> map v_quantity views = map requested_quantity items"
proof -
  from create_sale_created [OF assms(1)] assms(2,3)
  obtain uid d1 u where ins: "insert_sale sch (dict_get kv ''customer_id'') uid (db w) = Inr (sid, d1)"
    and loop: "sale_items sch sid items d1 = (Next u, db w')"
    by auto
  from insert_sale_rows [OF ins] obtain row where
    d1: "d1 = (db w)\<lparr>sales := sales (db w) @ [row]\<rparr>" and row: "s_id row = sid"
    and sid: "sid = next_rowid (map s_id (sales (db w)))" by blast
  have fresh: "sid \<notin> set (map s_id (sales (db w)))" unfolding sid by (rule next_rowid_fresh)
  with assms(4) have none: "filter (\<lambda>r. d_sale_id r = sid) (sales_details d1) = []"
    by (auto simp: d1 filter_empty_conv)
  then have nd: "no_dangling d1 sid"
    by (auto simp: no_dangling_def filter_empty_conv)
  have empty: "select_details d1 sid = []"
    by (simp add: select_details_def Let_def none left_join_def)
  have dp: "distinct (map p_id (products d1))" using assms(5) by (simp add: d1)
  from sale_items_views [OF nd dp loop] empty
  have views: "map v_quantity (select_details (db w') sid) = map requested_quantity items"
    and sales: "sales (db w') = sales (db w) @ [row]"
    by (simp_all add: d1)
  have "find (\<lambda>s. s_id s = sid) (sales (db w')) = Some row"
    unfolding sales using fresh row by (intro find_snoc_fresh) (auto simp: image_iff)
  then have "get_sale sid req' w' =
      (Inr (SaleView sid (s_customer_id row) (s_user_id row) (select_details (db w') sid)), w')"
    by (simp add: get_sale_def row)
  with views show ?thesis by blast
qed

theorem quantity_round_trip_witness:
  "\<exists>customer user views.
     get_sale 1 (as_alice JNull)
       (snd (create_sale no_constraints
          (as_alice (sale_request 1 [product_line 5 (JInt 2) 500, plain_line 100])) w0)) =
       (Inr (SaleView 1 customer user views),
        snd (create_sale no_constraints
          (as_alice (sale_request 1 [product_line 5 (JInt 2) 500, plain_line 100])) w0))
   \<and> map v_quantity views = [Some 2, None]"
proof -
  let ?items = "[product_line 5 (JInt 2) 500, plain_line 100]"
  let ?w' = "snd (create_sale no_constraints (as_alice (sale_request 1 ?items)) w0)"
  have r: "create_sale no_constraints (as_alice (sale_request 1 ?items)) w0 =
             (Inr (MsgId ''Sale has been created.'' 1 201), ?w')"
    by (simp add: run_two_lines)
  have b: "body (as_alice (sale_request 1 ?items)) =
             JObj [(''customer_id'', JInt 1), (''details'', JList ?items)]"
    by (simp add: as_alice_def sale_request_def)
  have d: "dict_get [(''customer_id'', JInt 1), (''details'', JList ?items)] ''details'' = JList ?items"
    by (simp add: dict_get_def)
  have i: "\<forall>r \<in> set (sales_details (db w0)). d_sale_id r \<in> set (map s_id (sales (db w0)))"
    by (simp add: w0_def shop_def)
  have p: "distinct (map p_id (products (db w0)))" by (simp add: w0_def shop_def)
  have q: "map requested_quantity ?items = [Some 2, None]"
    by (simp add: requested_quantity_def affects_inventory_def line_field_def
          product_line_def plain_line_def dict_get_def)
  from quantity_round_trip [OF r b d i p, of "as_alice JNull"] show ?thesis
    unfolding q .
qed

end
